theory Spec2Isabelle
  imports Main "HOL-Library.AList" "HOL-Library.Sublist"
begin

section \<open>The rVPNSE unified build system (tools/build.py)\<close>

text \<open>
  A shallow embedding of \<^verbatim>\<open>tools/build.py\<close>: the target registry, the NDK locator,
  the environment synthesizer, the build executor, the three packagers, the
  orchestrator \<^verbatim>\<open>rVPNSEBuilder.build\<close> and \<^verbatim>\<open>main\<close>.

  Python's \<^verbatim>\<open>str\<close> is \<open>string\<close>; the triples, names and file names of the program
  are ASCII. A \<^verbatim>\<open>pathlib.Path\<close> is the list of its parts, so that \<^verbatim>\<open>p / "a" / "b"\<close> is
  \<open>p @ [''a'', ''b'']\<close>. A \<^verbatim>\<open>dict\<close> is an association list in insertion order, updated
  with \<open>AList.update\<close> (an existing key keeps its place, a new key goes last), as
  Python's dictionaries do. Leading underscores of method names are dropped.
\<close>

subsection \<open>Data model\<close>

datatype BuildMode = DEBUG | RELEASE

fun mode_value :: "BuildMode \<Rightarrow> string" where
  "mode_value DEBUG = ''debug''"
| "mode_value RELEASE = ''release''"

datatype Platform = LINUX | MACOS | WINDOWS | ANDROID | IOS

record Target =
  name :: string
  rust_target :: string
  platform :: Platform
  arch :: string
  android_arch :: "string option"
  min_api :: "int option"

definition mk_target ::
  "string \<Rightarrow> string \<Rightarrow> Platform \<Rightarrow> string \<Rightarrow> string option \<Rightarrow> int option \<Rightarrow> Target" where
  "mk_target n r p a aa m =
     \<lparr>name = n, rust_target = r, platform = p, arch = a, android_arch = aa, min_api = m\<rparr>"

text \<open>The production target configurations, in the order of the source's dictionary.\<close>

definition TARGETS :: "(string \<times> Target) list" where
  "TARGETS =
    [(''linux-x64'', mk_target ''linux-x64'' ''x86_64-unknown-linux-gnu'' LINUX ''x64'' None None),
     (''macos-x64'', mk_target ''macos-x64'' ''x86_64-apple-darwin'' MACOS ''x64'' None None),
     (''macos-arm64'', mk_target ''macos-arm64'' ''aarch64-apple-darwin'' MACOS ''arm64'' None None),
     (''windows-x64'', mk_target ''windows-x64'' ''x86_64-pc-windows-msvc'' WINDOWS ''x64'' None None),
     (''android-arm64'',
        mk_target ''android-arm64'' ''aarch64-linux-android'' ANDROID ''arm64'' (Some ''arm64-v8a'') (Some 21)),
     (''android-arm'',
        mk_target ''android-arm'' ''armv7-linux-androideabi'' ANDROID ''arm'' (Some ''armeabi-v7a'') (Some 19)),
     (''android-x64'',
        mk_target ''android-x64'' ''x86_64-linux-android'' ANDROID ''x64'' (Some ''x86_64'') (Some 21)),
     (''android-x86'',
        mk_target ''android-x86'' ''i686-linux-android'' ANDROID ''x86'' (Some ''x86'') (Some 19)),
     (''ios-arm64'', mk_target ''ios-arm64'' ''aarch64-apple-ios'' IOS ''arm64'' None None),
     (''ios-x64-sim'', mk_target ''ios-x64-sim'' ''x86_64-apple-ios'' IOS ''x64'' None None),
     (''ios-arm64-sim'', mk_target ''ios-arm64-sim'' ''aarch64-apple-ios-sim'' IOS ''arm64'' None None)]"

text \<open>\<^verbatim>\<open>TARGETS.values()\<close> and the triples of the catalogue.\<close>

definition TARGETS_values :: "Target list" where
  "TARGETS_values = map snd TARGETS"

definition registry_triples :: "string list" where
  "registry_triples = map rust_target TARGETS_values"

subsection \<open>Library file names\<close>

definition get_library_name :: "Target \<Rightarrow> string" where
  "get_library_name t =
     (if platform t = WINDOWS then ''rvpnse.dll''
      else if platform t = MACOS \<or> platform t = IOS then ''librvpnse.dylib''
      else ''librvpnse.so'')"

subsection \<open>Mangling a triple into an environment variable name\<close>

text \<open>
  \<^verbatim>\<open>target.rust_target.upper().replace("-", "_")\<close>. Characters are bytes; \<^verbatim>\<open>upper\<close> is
  modelled on ASCII, where it maps the letters a to z to A to Z and leaves every other
  character alone (\<^verbatim>\<open>lower\<close> the other way round).
\<close>

definition ascii_lowercase :: string where
  "ascii_lowercase = ''abcdefghijklmnopqrstuvwxyz''"

definition ascii_uppercase :: string where
  "ascii_uppercase = ''ABCDEFGHIJKLMNOPQRSTUVWXYZ''"

definition upper_char :: "char \<Rightarrow> char" where
  "upper_char c =
     (case map_of (zip ascii_lowercase ascii_uppercase) c of Some u \<Rightarrow> u | None \<Rightarrow> c)"

definition upper :: "string \<Rightarrow> string" where
  "upper s = map upper_char s"

definition replace_char :: "char \<Rightarrow> char \<Rightarrow> string \<Rightarrow> string" where
  "replace_char old new s = map (\<lambda>c. if c = old then new else c) s"

definition target_upper :: "string \<Rightarrow> string" where
  "target_upper triple = replace_char (CHR ''-'') (CHR ''_'') (upper triple)"

definition lower_char :: "char \<Rightarrow> char" where
  "lower_char c =
     (case map_of (zip ascii_uppercase ascii_lowercase) c of Some l \<Rightarrow> l | None \<Rightarrow> c)"

definition lower :: "string \<Rightarrow> string" where
  "lower s = map lower_char s"

subsection \<open>Decimal text of an integer\<close>

text \<open>\<^verbatim>\<open>f"...{target.min_api}"\<close> formats an \<^verbatim>\<open>Optional[int]\<close>: digits, or \<^verbatim>\<open>None\<close>.\<close>

definition digit_char :: "nat \<Rightarrow> char" where
  "digit_char d = ''0123456789'' ! d"

function str_nat :: "nat \<Rightarrow> string" where
  "str_nat n = (if n < 10 then [digit_char n] else str_nat (n div 10) @ [digit_char (n mod 10)])"
  by pat_completeness auto
termination
  by (relation "measure (\<lambda>n. n)") auto

declare str_nat.simps [simp del]

definition str_int :: "int \<Rightarrow> string" where
  "str_int i = (if i < 0 then CHR ''-'' # str_nat (nat (- i)) else str_nat (nat i))"

definition format_min_api :: "int option \<Rightarrow> string" where
  "format_min_api m = (case m of None \<Rightarrow> ''None'' | Some i \<Rightarrow> str_int i)"

subsection \<open>Paths\<close>

type_synonym path = "string list"

text \<open>
  \<^verbatim>\<open>Path(s)\<close> splits the text at the slashes; an absolute path starts with the part
  \<^verbatim>\<open>/\<close>, and empty parts and \<^verbatim>\<open>.\<close> are dropped. \<^verbatim>\<open>str(p)\<close> joins the parts again.
\<close>

fun split_slash :: "string \<Rightarrow> string \<Rightarrow> string list" where
  "split_slash cur [] = [cur]"
| "split_slash cur (c # cs) =
     (if c = CHR ''/'' then cur # split_slash [] cs else split_slash (cur @ [c]) cs)"

definition Path :: "string \<Rightarrow> path" where
  "Path s =
     (if take 1 s = ''/'' then [''/''] else []) @
     filter (\<lambda>c. c \<noteq> [] \<and> c \<noteq> ''.'') (split_slash [] s)"

fun join_slash :: "string list \<Rightarrow> string" where
  "join_slash [] = []"
| "join_slash [c] = c"
| "join_slash (c # d # cs) = c @ ''/'' @ join_slash (d # cs)"

definition path_str :: "path \<Rightarrow> string" where
  "path_str p =
     (case p of
        [] \<Rightarrow> ''.''
      | c # cs \<Rightarrow> if c = ''/'' then ''/'' @ join_slash cs else join_slash (c # cs))"

text \<open>
  \<^verbatim>\<open>p.with_suffix("")\<close>: the suffix of the last part starts at its last dot, when that
  dot is neither its first nor its last character.
\<close>

definition stem :: "string \<Rightarrow> string" where
  "stem nm =
     (let suf = rev (takeWhile (\<lambda>c. c \<noteq> CHR ''.'') (rev nm));
          pre = take (length nm - length suf - 1) nm
      in if CHR ''.'' \<in> set nm \<and> pre \<noteq> [] \<and> suf \<noteq> [] then pre else nm)"

definition with_suffix_empty :: "path \<Rightarrow> path" where
  "with_suffix_empty p = (case p of [] \<Rightarrow> [] | _ \<Rightarrow> butlast p @ [stem (last p)])"

subsection \<open>The world: a filesystem and a log of effects\<close>

text \<open>
  The filesystem is the list of the paths that exist, read as a set; files and
  directories are not told apart and file contents are not modelled. Every call that
  changes the filesystem or starts a process is logged in \<open>trace\<close>, in program order.
  Library calls on the filesystem are taken to succeed; the exceptions modelled are the
  ones the program raises itself and the failed look-ups of its own tables.
\<close>

datatype event =
    Exec "string list"
  | Rmtree path
  | Mkdir path
  | Copy2 path path
  | WriteText path
  | Chmod path
  | MakeArchive path string path

record world =
  fs :: "path list"
  trace :: "event list"

datatype error = RuntimeError string | KeyError string | TypeError string

datatype proc_result = Exited int | Raised

text \<open>
  The host the program runs on: \<^verbatim>\<open>os.environ\<close>, \<^verbatim>\<open>Path.home()\<close>, \<^verbatim>\<open>platform.system()\<close>,
  \<^verbatim>\<open>platform.machine()\<close>, \<^verbatim>\<open>shutil.which\<close>, and \<^verbatim>\<open>subprocess.run\<close>: a process gets the
  command, the working directory and the environment, and leaves an exit status (or
  cannot be started) and a filesystem.
\<close>

record host =
  environ :: "(string \<times> string) list"
  home :: path
  system :: string
  machine :: string
  which :: "string \<Rightarrow> path option"
  exec :: "string list \<Rightarrow> path \<Rightarrow> (string \<times> string) list \<Rightarrow> path list \<Rightarrow> proc_result \<times> path list"

definition path_exists :: "world \<Rightarrow> path \<Rightarrow> bool" where
  "path_exists w p = (p \<in> set (fs w))"

definition emit :: "event \<Rightarrow> world \<Rightarrow> world" where
  "emit e w = w\<lparr>trace := trace w @ [e]\<rparr>"

text \<open>The events logged between two worlds of one run.\<close>

definition events_since :: "world \<Rightarrow> world \<Rightarrow> event list" where
  "events_since w w' = drop (length (trace w)) (trace w')"

definition rmtree :: "path \<Rightarrow> world \<Rightarrow> world" where
  "rmtree p w = emit (Rmtree p) (w\<lparr>fs := filter (\<lambda>q. \<not> prefix p q) (fs w)\<rparr>)"

definition mkdir_parents :: "path \<Rightarrow> world \<Rightarrow> world" where
  "mkdir_parents p w = emit (Mkdir p) (w\<lparr>fs := tl (prefixes p) @ fs w\<rparr>)"

definition mkdir :: "path \<Rightarrow> world \<Rightarrow> world" where
  "mkdir p w = emit (Mkdir p) (w\<lparr>fs := p # fs w\<rparr>)"

definition copy2 :: "path \<Rightarrow> path \<Rightarrow> world \<Rightarrow> world" where
  "copy2 src dst w = emit (Copy2 src dst) (w\<lparr>fs := dst # fs w\<rparr>)"

text \<open>\<^verbatim>\<open>shutil.copy2(src, directory)\<close> keeps the file's name.\<close>

definition copy2_into :: "path \<Rightarrow> path \<Rightarrow> world \<Rightarrow> world" where
  "copy2_into src dir w = copy2 src (dir @ [last src]) w"

definition write_text :: "path \<Rightarrow> world \<Rightarrow> world" where
  "write_text p w = emit (WriteText p) (w\<lparr>fs := p # fs w\<rparr>)"

definition chmod :: "path \<Rightarrow> world \<Rightarrow> world" where
  "chmod p w = emit (Chmod p) w"

text \<open>
  \<^verbatim>\<open>shutil.make_archive(base, format, root)\<close> writes \<^verbatim>\<open>base.zip\<close> or \<^verbatim>\<open>base.tar.gz\<close>.
\<close>

definition archive_ext :: "string \<Rightarrow> string" where
  "archive_ext fmt = (if fmt = ''zip'' then ''.zip'' else ''.tar.gz'')"

definition archive_file :: "path \<Rightarrow> string \<Rightarrow> path" where
  "archive_file base fmt = butlast base @ [last base @ archive_ext fmt]"

definition make_archive :: "path \<Rightarrow> string \<Rightarrow> path \<Rightarrow> world \<Rightarrow> world" where
  "make_archive base fmt root w =
     emit (MakeArchive base fmt root) (w\<lparr>fs := archive_file base fmt # fs w\<rparr>)"

subsection \<open>The builder and the toolchain locator\<close>

record builder =
  project_root :: path
  mode :: BuildMode
  build_dir :: path
  output_dir :: path
  android_ndk_root :: "path option"

definition possible_paths :: "host \<Rightarrow> path list" where
  "possible_paths h =
     [home h @ [''Android'', ''Sdk'', ''ndk'', ''25.2.9519653''],
      home h @ [''Library'', ''Android'', ''sdk'', ''ndk'', ''25.2.9519653''],
      [''/'', ''usr'', ''local'', ''android-ndk-r25c''],
      [''/'', ''opt'', ''android-ndk-r25c'']]"

text \<open>The environment variable is read first; an unset or empty value is skipped.\<close>

definition ndk_from_environ :: "host \<Rightarrow> world \<Rightarrow> path option" where
  "ndk_from_environ h w =
     (case map_of (environ h) ''ANDROID_NDK_ROOT'' of
        None \<Rightarrow> None
      | Some ndk_root \<Rightarrow>
          if ndk_root \<noteq> [] \<and> path_exists w (Path ndk_root) then Some (Path ndk_root) else None)"

definition ndk_candidate_ok :: "world \<Rightarrow> path \<Rightarrow> bool" where
  "ndk_candidate_ok w p =
     (path_exists w p \<and> path_exists w (p @ [''toolchains'', ''llvm'', ''prebuilt'']))"

definition find_android_ndk :: "host \<Rightarrow> world \<Rightarrow> path option" where
  "find_android_ndk h w =
     (case ndk_from_environ h w of
        Some p \<Rightarrow> Some p
      | None \<Rightarrow> find (ndk_candidate_ok w) (possible_paths h))"

text \<open>\<^verbatim>\<open>rVPNSEBuilder.__init__\<close>.\<close>

definition init_builder :: "path \<Rightarrow> BuildMode \<Rightarrow> host \<Rightarrow> world \<Rightarrow> error + builder" where
  "init_builder root m h w =
     (let b = \<lparr>project_root = root, mode = m, build_dir = root @ [''target''],
                output_dir = root @ [''dist''], android_ndk_root = find_android_ndk h w\<rparr>
      in if \<not> path_exists w (root @ [''Cargo.toml''])
         then Inl (RuntimeError ''Cargo.toml not found'')
         else Inr b)"

subsection \<open>Running a command\<close>

text \<open>
  \<^verbatim>\<open>_run_command\<close>: True exactly when the process could be started and left status 0;
  a non-zero status and an exception of \<^verbatim>\<open>subprocess.run\<close> both give False.
  \<^verbatim>\<open>cwd or self.project_root\<close> and \<^verbatim>\<open>env or os.environ.copy()\<close> replace a missing and
  an empty argument.
\<close>

definition run_command ::
  "builder \<Rightarrow> host \<Rightarrow> string list \<Rightarrow> path option \<Rightarrow> (string \<times> string) list option \<Rightarrow> world
     \<Rightarrow> bool \<times> world" where
  "run_command b h cmd cwd env w =
     (let dir = (case cwd of None \<Rightarrow> project_root b | Some d \<Rightarrow> d);
          e = (case env of None \<Rightarrow> environ h | Some e \<Rightarrow> if e = [] then environ h else e);
          (r, fs') = exec h cmd dir e (fs w)
      in (r = Exited 0, emit (Exec cmd) (w\<lparr>fs := fs'\<rparr>)))"

subsection \<open>Setting up Rust\<close>

fun add_rust_targets :: "builder \<Rightarrow> host \<Rightarrow> string list \<Rightarrow> world \<Rightarrow> world" where
  "add_rust_targets b h [] w = w"
| "add_rust_targets b h (r # rs) w =
     add_rust_targets b h rs
       (snd (run_command b h [''rustup'', ''target'', ''add'', r] None None w))"

definition setup_rust_environment :: "builder \<Rightarrow> host \<Rightarrow> world \<Rightarrow> bool \<times> world" where
  "setup_rust_environment b h w =
     (if which h ''cargo'' = None then (False, w)
      else (True, add_rust_targets b h (map rust_target TARGETS_values) w))"

subsection \<open>The Android build environment\<close>

definition clang_targets :: "Target \<Rightarrow> (string \<times> string) list" where
  "clang_targets t =
     [(''aarch64-linux-android'', ''aarch64-linux-android'' @ format_min_api (min_api t)),
      (''armv7-linux-androideabi'', ''armv7a-linux-androideabi'' @ format_min_api (min_api t)),
      (''x86_64-linux-android'', ''x86_64-linux-android'' @ format_min_api (min_api t)),
      (''i686-linux-android'', ''i686-linux-android'' @ format_min_api (min_api t))]"

definition dict_update :: "(string \<times> string) list \<Rightarrow> (string \<times> string) list \<Rightarrow> (string \<times> string) list" where
  "dict_update kvs d = fold (\<lambda>(k, v). AList.update k v) kvs d"

definition toolchain_dir_of :: "host \<Rightarrow> path \<Rightarrow> path" where
  "toolchain_dir_of h ndk =
     (if lower (system h) = ''darwin''
      then ndk @ [''toolchains'', ''llvm'', ''prebuilt'', ''darwin-x86_64'']
      else ndk @ [''toolchains'', ''llvm'', ''prebuilt'', ''linux-x86_64''])"

definition setup_android_environment ::
  "builder \<Rightarrow> host \<Rightarrow> Target \<Rightarrow> world \<Rightarrow> error + (string \<times> string) list" where
  "setup_android_environment b h t w =
     (case android_ndk_root b of
        None \<Rightarrow> Inl (RuntimeError ''Android NDK not found'')
      | Some ndk \<Rightarrow>
          let toolchain_dir = toolchain_dir_of h ndk in
          if \<not> path_exists w toolchain_dir
          then Inl (RuntimeError ''Android toolchain not found'')
          else
            (case map_of (clang_targets t) (rust_target t) of
               None \<Rightarrow> Inl (KeyError (rust_target t))
             | Some clang_target \<Rightarrow>
                 let tu = target_upper (rust_target t)
                 in Inr (dict_update
                     [(''ANDROID_NDK_ROOT'', path_str ndk),
                      (''ANDROID_NDK_HOME'', path_str ndk),
                      (''CC_'' @ tu, path_str (toolchain_dir @ [''bin'', clang_target @ ''-clang''])),
                      (''CXX_'' @ tu, path_str (toolchain_dir @ [''bin'', clang_target @ ''-clang++''])),
                      (''AR_'' @ tu, path_str (toolchain_dir @ [''bin'', ''llvm-ar''])),
                      (''CARGO_TARGET_'' @ tu @ ''_LINKER'',
                         path_str (toolchain_dir @ [''bin'', clang_target @ ''-clang'']))]
                     (environ h))))"

subsection \<open>The build executor\<close>

definition lib_path_of :: "builder \<Rightarrow> Target \<Rightarrow> path" where
  "lib_path_of b t = build_dir b @ [rust_target t, mode_value (mode b), get_library_name t]"

definition clean_previous_build :: "builder \<Rightarrow> Target \<Rightarrow> world \<Rightarrow> world" where
  "clean_previous_build b t w =
     (let target_dir = build_dir b @ [rust_target t]
      in if path_exists w target_dir then rmtree target_dir w else w)"

definition cargo_build_cmd :: "builder \<Rightarrow> Target \<Rightarrow> string list" where
  "cargo_build_cmd b t =
     [''cargo'', ''build'', ''--target'', rust_target t] @
     (if mode b = RELEASE then [''--release''] else [])"

text \<open>
  The environment of the build (\<^verbatim>\<open>os.environ.copy()\<close>, replaced by the Android
  environment for an Android target) and the invocation of the build tool that
  \<^verbatim>\<open>_run_command\<close> makes with it.
\<close>

definition build_env :: "builder \<Rightarrow> host \<Rightarrow> Target \<Rightarrow> world \<Rightarrow> error + (string \<times> string) list" where
  "build_env b h t w =
     (if platform t = ANDROID then setup_android_environment b h t w else Inr (environ h))"

definition tool_run ::
  "builder \<Rightarrow> host \<Rightarrow> Target \<Rightarrow> (string \<times> string) list \<Rightarrow> world \<Rightarrow> proc_result \<times> path list" where
  "tool_run b h t env w =
     exec h (cargo_build_cmd b t) (project_root b) (if env = [] then environ h else env) (fs w)"

text \<open>
  \<^verbatim>\<open>_build_target\<close>. The result is the returned flag, or the exception that
  \<^verbatim>\<open>_setup_android_environment\<close> raised; the world comes back in both cases.
\<close>

definition build_target :: "builder \<Rightarrow> host \<Rightarrow> Target \<Rightarrow> world \<Rightarrow> (error + bool) \<times> world" where
  "build_target b h t w =
     (let w1 = clean_previous_build b t w in
      if platform t = ANDROID \<and> android_ndk_root b = None then (Inr False, w1)
      else
        (case build_env b h t w1 of
           Inl e \<Rightarrow> (Inl e, w1)
         | Inr env \<Rightarrow>
             let (success, w2) = run_command b h (cargo_build_cmd b t) None (Some env) w1
             in if success
                then (if path_exists w2 (lib_path_of b t) then (Inr True, w2) else (Inr False, w2))
                else (Inr False, w2)))"

subsection \<open>Packaging a desktop target\<close>

text \<open>The repeated \<^verbatim>\<open>if f.exists(): shutil.copy2(f, directory)\<close>.\<close>

definition copy_if_exists :: "path \<Rightarrow> path \<Rightarrow> world \<Rightarrow> world" where
  "copy_if_exists f dir w = (if path_exists w f then copy2_into f dir w else w)"

definition package_target :: "builder \<Rightarrow> Target \<Rightarrow> world \<Rightarrow> path option \<times> world" where
  "package_target b t w =
     (let lib_path = lib_path_of b t in
      if \<not> path_exists w lib_path then (None, w)
      else
        let package_dir = output_dir b @ [''rvpnse-'' @ name t];
            w1 = mkdir_parents package_dir w;
            w2 = copy2_into lib_path package_dir w1;
            w3 = copy_if_exists (project_root b @ [''include'', ''rvpnse.h'']) package_dir w2;
            w4 = copy_if_exists (project_root b @ [''README.md'']) package_dir w3
        in if platform t = WINDOWS
           then
             let archive_path = output_dir b @ [''rvpnse-'' @ name t @ ''.zip''];
                 w5 = make_archive (with_suffix_empty archive_path) ''zip'' package_dir w4
             in (Some archive_path, rmtree package_dir w5)
           else
             let archive_path = output_dir b @ [''rvpnse-'' @ name t @ ''.tar.gz''];
                 w5 = make_archive (with_suffix_empty (with_suffix_empty archive_path))
                        ''gztar'' package_dir w4
             in (Some archive_path, rmtree package_dir w5))"

subsection \<open>Packaging the Android bundle\<close>

text \<open>
  The loop over the architectures. \<^verbatim>\<open>jni_libs_dir / target.android_arch\<close> raises
  \<^verbatim>\<open>TypeError\<close> on a target without the tag.
\<close>

definition android_lib_path :: "builder \<Rightarrow> Target \<Rightarrow> path" where
  "android_lib_path b t = build_dir b @ [rust_target t, mode_value (mode b), ''librvpnse.so'']"

fun copy_android_libs ::
  "builder \<Rightarrow> path \<Rightarrow> Target list \<Rightarrow> world \<Rightarrow> (error + unit) \<times> world" where
  "copy_android_libs b jni_libs_dir [] w = (Inr (), w)"
| "copy_android_libs b jni_libs_dir (t # ts) w =
     (let lib_path = android_lib_path b t in
      if path_exists w lib_path
      then
        (case android_arch t of
           None \<Rightarrow> (Inl (TypeError ''android_arch''), w)
         | Some a \<Rightarrow>
             let arch_dir = jni_libs_dir @ [a];
                 w1 = mkdir arch_dir w;
                 w2 = copy2 lib_path (arch_dir @ [''librvpnse.so'']) w1
             in copy_android_libs b jni_libs_dir ts w2)
      else copy_android_libs b jni_libs_dir ts w)"

definition package_android_bundle ::
  "builder \<Rightarrow> Target list \<Rightarrow> world \<Rightarrow> (error + path option) \<times> world" where
  "package_android_bundle b android_targets w =
     (let bundle_dir = output_dir b @ [''rvpnse-android''];
          jni_libs_dir = bundle_dir @ [''jniLibs''];
          w1 = mkdir_parents jni_libs_dir w
      in case copy_android_libs b jni_libs_dir android_targets w1 of
           (Inl e, w2) \<Rightarrow> (Inl e, w2)
         | (Inr u, w2) \<Rightarrow>
             let w3 = copy_if_exists (project_root b @ [''include'', ''rvpnse.h'']) bundle_dir w2;
                 w4 = copy_if_exists (project_root b @ [''README.md'']) bundle_dir w3;
                 install_script = bundle_dir @ [''install.sh''];
                 w5 = write_text install_script w4;
                 w6 = chmod install_script w5;
                 archive_path = output_dir b @ [''rvpnse-android.tar.gz''];
                 w7 = make_archive (with_suffix_empty (with_suffix_empty archive_path))
                        ''gztar'' bundle_dir w6
             in (Inr (Some archive_path), rmtree bundle_dir w7))"

subsection \<open>Packaging the iOS bundle\<close>

definition ios_lib_path :: "builder \<Rightarrow> Target \<Rightarrow> path" where
  "ios_lib_path b t = build_dir b @ [rust_target t, mode_value (mode b), ''librvpnse.dylib'']"

text \<open>The grouping loop, with its two accumulators.\<close>

fun group_ios_targets ::
  "builder \<Rightarrow> world \<Rightarrow> Target list \<Rightarrow> (Target \<times> path) list \<Rightarrow> (Target \<times> path) list
     \<Rightarrow> (Target \<times> path) list \<times> (Target \<times> path) list" where
  "group_ios_targets b w [] device_targets simulator_targets =
     (device_targets, simulator_targets)"
| "group_ios_targets b w (t # ts) device_targets simulator_targets =
     (let lib_path = ios_lib_path b t in
      if path_exists w lib_path
      then
        (if rust_target t = ''aarch64-apple-ios''
         then group_ios_targets b w ts (device_targets @ [(t, lib_path)]) simulator_targets
         else group_ios_targets b w ts device_targets (simulator_targets @ [(t, lib_path)]))
      else group_ios_targets b w ts device_targets simulator_targets)"

definition lipo_cmd :: "path \<Rightarrow> (Target \<times> path) list \<Rightarrow> string list" where
  "lipo_cmd out targets =
     [''lipo'', ''-create'', ''-output'', path_str out] @ map (\<lambda>(t, p). path_str p) targets"

text \<open>
  The two blocks that create a framework's binary are the same code on the device and
  on the simulator group; the flag returned is False where the source returns None
  after a failed \<^verbatim>\<open>lipo\<close>.
\<close>

definition create_framework ::
  "builder \<Rightarrow> host \<Rightarrow> path \<Rightarrow> string \<Rightarrow> (Target \<times> path) list \<Rightarrow> world \<Rightarrow> bool \<times> world" where
  "create_framework b h bundle_dir framework_name targets w =
     (if targets = [] then (True, w)
      else
        let framework_dir = bundle_dir @ [framework_name];
            w1 = mkdir_parents framework_dir w
        in if length targets = 1
           then (True, copy2 (snd (hd targets)) (framework_dir @ [''rVPNSE'']) w1)
           else run_command b h (lipo_cmd (framework_dir @ [''rVPNSE'']) targets) None None w1)"

definition add_framework_metadata :: "builder \<Rightarrow> path \<Rightarrow> string \<Rightarrow> world \<Rightarrow> world" where
  "add_framework_metadata b bundle_dir framework_name w =
     (let framework_path = bundle_dir @ [framework_name] in
      if path_exists w framework_path
      then
        let w1 = write_text (framework_path @ [''Info.plist'']) w;
            headers_dir = framework_path @ [''Headers''];
            w2 = mkdir headers_dir w1;
            header_file = project_root b @ [''include'', ''rvpnse.h'']
        in if path_exists w2 header_file
           then write_text (headers_dir @ [''module.modulemap'']) (copy2_into header_file headers_dir w2)
           else w2
      else w)"

definition package_ios_bundle ::
  "builder \<Rightarrow> host \<Rightarrow> Target list \<Rightarrow> world \<Rightarrow> path option \<times> world" where
  "package_ios_bundle b h ios_targets w =
     (let bundle_dir = output_dir b @ [''rvpnse-ios''];
          w1 = mkdir_parents bundle_dir w;
          (device_targets, simulator_targets) = group_ios_targets b w1 ios_targets [] []
      in if device_targets = [] \<and> simulator_targets = [] then (None, w1)
         else
           let (device_ok, w2) =
                 create_framework b h bundle_dir ''rVPNSE-Device.framework'' device_targets w1
           in if \<not> device_ok then (None, w2)
              else
                let (sim_ok, w3) =
                      create_framework b h bundle_dir ''rVPNSE-Simulator.framework''
                        simulator_targets w2
                in if \<not> sim_ok then (None, w3)
                   else
                     let w4 = add_framework_metadata b bundle_dir ''rVPNSE-Device.framework'' w3;
                         w5 = add_framework_metadata b bundle_dir ''rVPNSE-Simulator.framework'' w4;
                         w6 = copy_if_exists (project_root b @ [''README.md'']) bundle_dir w5;
                         install_script = bundle_dir @ [''install.sh''];
                         w7 = write_text install_script w6;
                         w8 = chmod install_script w7;
                         archive_path = output_dir b @ [''rvpnse-ios.tar.gz''];
                         w9 = make_archive (with_suffix_empty (with_suffix_empty archive_path))
                                ''gztar'' bundle_dir w8
                     in (Some archive_path, rmtree bundle_dir w9))"

subsection \<open>The orchestrator\<close>

record loop_state =
  results :: "(string \<times> bool) list"
  android_targets :: "Target list"
  ios_targets :: "Target list"

text \<open>
  The per-target loop of \<^verbatim>\<open>build\<close>. \<^verbatim>\<open>TARGETS[target_name]\<close> raises \<^verbatim>\<open>KeyError\<close> on an
  unknown name; an exception of \<^verbatim>\<open>_build_target\<close> leaves the loop.
\<close>

fun build_loop ::
  "builder \<Rightarrow> host \<Rightarrow> string list \<Rightarrow> loop_state \<Rightarrow> world \<Rightarrow> (error + loop_state) \<times> world" where
  "build_loop b h [] st w = (Inr st, w)"
| "build_loop b h (target_name # rest) st w =
     (case map_of TARGETS target_name of
        None \<Rightarrow> (Inl (KeyError target_name), w)
      | Some t \<Rightarrow>
          (case build_target b h t w of
             (Inl e, w1) \<Rightarrow> (Inl e, w1)
           | (Inr success, w1) \<Rightarrow>
               let st1 = st\<lparr>results := AList.update target_name success (results st)\<rparr> in
               if success
               then
                 (if platform t = ANDROID
                  then build_loop b h rest (st1\<lparr>android_targets := android_targets st1 @ [t]\<rparr>) w1
                  else if platform t = IOS
                  then build_loop b h rest (st1\<lparr>ios_targets := ios_targets st1 @ [t]\<rparr>) w1
                  else build_loop b h rest st1 (snd (package_target b t w1)))
               else build_loop b h rest st1 w1))"

definition clean_output_dir :: "builder \<Rightarrow> world \<Rightarrow> world" where
  "clean_output_dir b w =
     mkdir_parents (output_dir b)
       (if path_exists w (output_dir b) then rmtree (output_dir b) w else w)"

definition invalid_targets_of :: "string list \<Rightarrow> string list" where
  "invalid_targets_of target_names = filter (\<lambda>n. map_of TARGETS n = None) target_names"

definition build ::
  "builder \<Rightarrow> host \<Rightarrow> string list \<Rightarrow> world \<Rightarrow> (error + (string \<times> bool) list) \<times> world" where
  "build b h target_names w =
     (let (ok, w1) = setup_rust_environment b h w in
      if \<not> ok then (Inr [], w1)
      else
        let w3 = clean_output_dir b w1 in
        if invalid_targets_of target_names \<noteq> [] then (Inr [], w3)
        else
          (case build_loop b h target_names
                  \<lparr>results = [], android_targets = [], ios_targets = []\<rparr> w3 of
             (Inl e, w4) \<Rightarrow> (Inl e, w4)
           | (Inr st, w4) \<Rightarrow>
               (case (if android_targets st \<noteq> []
                      then package_android_bundle b (android_targets st) w4
                      else (Inr None, w4)) of
                  (Inl e, w5) \<Rightarrow> (Inl e, w5)
                | (Inr a, w5) \<Rightarrow>
                    let w6 = (if ios_targets st \<noteq> []
                              then snd (package_ios_bundle b h (ios_targets st) w5)
                              else w5)
                    in (Inr (results st), w6))))"

definition clean :: "builder \<Rightarrow> world \<Rightarrow> world" where
  "clean b w =
     (let w1 = (if path_exists w (build_dir b) then rmtree (build_dir b) w else w)
      in if path_exists w1 (output_dir b) then rmtree (output_dir b) w1 else w1)"

subsection \<open>The command line\<close>

record args =
  arg_mode :: BuildMode
  arg_targets :: "string list option"
  arg_list :: bool
  arg_clean :: bool
  arg_all_desktop :: bool
  arg_all_android :: bool
  arg_all_ios :: bool
  arg_all :: bool

definition default_targets :: "host \<Rightarrow> string list" where
  "default_targets h =
     (let current_system = lower (system h) in
      if current_system = ''darwin''
      then (if machine h = ''arm64'' then [''macos-arm64''] else [''macos-x64''])
      else if current_system = ''linux'' then [''linux-x64'']
      else if current_system = ''windows'' then [''windows-x64'']
      else [])"

definition targets_to_build :: "args \<Rightarrow> host \<Rightarrow> string list" where
  "targets_to_build a h =
     (if arg_all a then map fst TARGETS
      else if arg_all_desktop a
      then map fst (filter (\<lambda>(n, t). platform t \<noteq> ANDROID \<and> platform t \<noteq> IOS) TARGETS)
      else if arg_all_android a
      then map fst (filter (\<lambda>(n, t). platform t = ANDROID) TARGETS)
      else if arg_all_ios a
      then map fst (filter (\<lambda>(n, t). platform t = IOS) TARGETS)
      else if arg_targets a \<noteq> None \<and> arg_targets a \<noteq> Some []
      then the (arg_targets a)
      else default_targets h)"

text \<open>
  \<^verbatim>\<open>main\<close> returns None after \<^verbatim>\<open>--list\<close> and \<^verbatim>\<open>--clean\<close>, and 0 or 1 otherwise; the
  summary it prints is not modelled. \<^verbatim>\<open>sys.exit(main())\<close> turns None into status 0, and
  an exception that nothing catches ends the process with status 1.
\<close>

definition success_count_of :: "(string \<times> bool) list \<Rightarrow> nat" where
  "success_count_of rs = length (filter snd rs)"

definition main :: "args \<Rightarrow> path \<Rightarrow> host \<Rightarrow> world \<Rightarrow> (error + int option) \<times> world" where
  "main a root h w =
     (case init_builder root (arg_mode a) h w of
        Inl e \<Rightarrow> (Inl e, w)
      | Inr b \<Rightarrow>
          if arg_list a then (Inr None, w)
          else if arg_clean a then (Inr None, clean b w)
          else
            let ts = targets_to_build a h in
            if ts = [] then (Inr (Some 1), w)
            else
              (case build b h ts w of
                 (Inl e, w1) \<Rightarrow> (Inl e, w1)
               | (Inr rs, w1) \<Rightarrow>
                   (Inr (Some (if success_count_of rs = length rs then 0 else 1)), w1)))"

definition exit_status :: "error + int option \<Rightarrow> int" where
  "exit_status r = (case r of Inl e \<Rightarrow> 1 | Inr None \<Rightarrow> 0 | Inr (Some n) \<Rightarrow> n)"

subsection \<open>Reading the log\<close>

text \<open>
  The events the properties below look for: a run of \<^verbatim>\<open>cargo build\<close>, the writing of
  an archive, the writing of the Android bundle's archive, and the two ways a binary gets
  into a framework (a copy to its \<^verbatim>\<open>rVPNSE\<close> file, or a run of \<^verbatim>\<open>lipo\<close>).
\<close>

definition is_cargo_build :: "event \<Rightarrow> bool" where
  "is_cargo_build e = (case e of Exec cmd \<Rightarrow> take 2 cmd = [''cargo'', ''build''] | _ \<Rightarrow> False)"

definition is_archive :: "event \<Rightarrow> bool" where
  "is_archive e = (case e of MakeArchive base fmt root \<Rightarrow> True | _ \<Rightarrow> False)"

definition is_android_archive :: "builder \<Rightarrow> event \<Rightarrow> bool" where
  "is_android_archive b e =
     (case e of
        MakeArchive base fmt root \<Rightarrow> base = output_dir b @ [''rvpnse-android'']
      | _ \<Rightarrow> False)"

definition writes_binary :: "event \<Rightarrow> bool" where
  "writes_binary e =
     (case e of
        Exec cmd \<Rightarrow> take 1 cmd = [''lipo'']
      | Copy2 src dst \<Rightarrow> dst \<noteq> [] \<and> last dst = ''rVPNSE''
      | _ \<Rightarrow> False)"

text \<open>
  What a group of iOS artifacts is to add to the log, in the words of the
  specification: nothing for an empty group, one copy of the binary for a group of one,
  one run of the merge tool over all the paths of the group otherwise.
\<close>

definition framework_binary_events :: "path \<Rightarrow> (Target \<times> path) list \<Rightarrow> event list" where
  "framework_binary_events out g =
     (if g = [] then []
      else if length g = 1 then [Copy2 (snd (hd g)) out]
      else [Exec (lipo_cmd out g)])"

subsection \<open>Example hosts and worlds\<close>

text \<open>
  Stub tools for concrete runs: \<open>silent_exec\<close> exits 0 and writes nothing;
  \<open>writing_exec\<close> lets \<^verbatim>\<open>cargo build\<close> succeed and write the library under each of
  its three names, lets \<^verbatim>\<open>lipo\<close> fail, and lets every other command succeed.
\<close>

definition silent_exec ::
  "string list \<Rightarrow> path \<Rightarrow> (string \<times> string) list \<Rightarrow> path list \<Rightarrow> proc_result \<times> path list" where
  "silent_exec cmd dir env files = (Exited 0, files)"

definition writing_exec ::
  "string list \<Rightarrow> path \<Rightarrow> (string \<times> string) list \<Rightarrow> path list \<Rightarrow> proc_result \<times> path list" where
  "writing_exec cmd dir env files =
     (if take 2 cmd = [''cargo'', ''build'']
      then
        (let out = dir @ [''target'', cmd ! 3,
                          if ''--release'' \<in> set cmd then ''release'' else ''debug'']
         in (Exited 0,
             [out @ [''librvpnse.so''], out @ [''librvpnse.dylib''], out @ [''rvpnse.dll'']] @ files))
      else if take 1 cmd = [''lipo''] then (Exited 1, files)
      else (Exited 0, files))"

definition stub_host ::
  "(string list \<Rightarrow> path \<Rightarrow> (string \<times> string) list \<Rightarrow> path list \<Rightarrow> proc_result \<times> path list) \<Rightarrow> host" where
  "stub_host ex =
     \<lparr>environ = [], home = [''/'', ''home'', ''dev''], system = ''Linux'', machine = ''x86_64'',
      which = (\<lambda>n. if n = ''cargo'' then Some [''/'', ''usr'', ''bin'', ''cargo''] else None),
      exec = ex\<rparr>"

definition stub_builder :: builder where
  "stub_builder =
     \<lparr>project_root = [''proj''], mode = RELEASE, build_dir = [''proj'', ''target''],
      output_dir = [''proj'', ''dist''], android_ndk_root = None\<rparr>"

definition stub_world :: world where
  "stub_world = \<lparr>fs = [[''proj''], [''proj'', ''Cargo.toml'']], trace = []\<rparr>"

definition linux_x64 :: Target where
  "linux_x64 = mk_target ''linux-x64'' ''x86_64-unknown-linux-gnu'' LINUX ''x64'' None None"

definition android_arm64 :: Target where
  "android_arm64 =
     mk_target ''android-arm64'' ''aarch64-linux-android'' ANDROID ''arm64'' (Some ''arm64-v8a'') (Some 21)"

definition android_x64 :: Target where
  "android_x64 =
     mk_target ''android-x64'' ''x86_64-linux-android'' ANDROID ''x64'' (Some ''x86_64'') (Some 21)"

definition ios_arm64 :: Target where
  "ios_arm64 = mk_target ''ios-arm64'' ''aarch64-apple-ios'' IOS ''arm64'' None None"

definition ios_x64_sim :: Target where
  "ios_x64_sim = mk_target ''ios-x64-sim'' ''x86_64-apple-ios'' IOS ''x64'' None None"

definition ios_arm64_sim :: Target where
  "ios_arm64_sim = mk_target ''ios-arm64-sim'' ''aarch64-apple-ios-sim'' IOS ''arm64'' None None"

text \<open>A world with an NDK under \<^verbatim>\<open>/opt\<close>, and a partial install under \<^verbatim>\<open>/usr/local\<close>.\<close>

definition ndk_world :: world where
  "ndk_world =
     \<lparr>fs = [[''/'', ''usr'', ''local'', ''android-ndk-r25c''],
             [''/'', ''opt'', ''android-ndk-r25c''],
             [''/'', ''opt'', ''android-ndk-r25c'', ''toolchains'', ''llvm'', ''prebuilt'']],
      trace = []\<rparr>"

text \<open>A world that holds an archive of an earlier run.\<close>

definition old_world :: world where
  "old_world =
     \<lparr>fs = [[''proj''], [''proj'', ''Cargo.toml''], [''proj'', ''dist''],
             [''proj'', ''dist'', ''rvpnse-linux-x64.tar.gz'']],
      trace = []\<rparr>"

text \<open>The command line \<^verbatim>\<open>--targets\<close> followed by the given names, with every flag off.\<close>

definition targets_args :: "string list \<Rightarrow> args" where
  "targets_args ts =
     \<lparr>arg_mode = RELEASE, arg_targets = Some ts, arg_list = False, arg_clean = False,
      arg_all_desktop = False, arg_all_android = False, arg_all_ios = False, arg_all = False\<rparr>"

text \<open>A world in which the three iOS libraries have been built.\<close>

definition ios_world :: world where
  "ios_world =
     \<lparr>fs = [[''proj''], [''proj'', ''dist''],
             [''proj'', ''target'', ''aarch64-apple-ios'', ''release'', ''librvpnse.dylib''],
             [''proj'', ''target'', ''x86_64-apple-ios'', ''release'', ''librvpnse.dylib''],
             [''proj'', ''target'', ''aarch64-apple-ios-sim'', ''release'', ''librvpnse.dylib'']],
      trace = []\<rparr>"

text \<open>A builder with an NDK, and a world that holds the NDK's Linux toolchain.\<close>

definition ndk_builder :: builder where
  "ndk_builder =
     \<lparr>project_root = [''proj''], mode = RELEASE, build_dir = [''proj'', ''target''],
      output_dir = [''proj'', ''dist''],
      android_ndk_root = Some [''/'', ''opt'', ''android-ndk-r25c'']\<rparr>"

definition toolchain_world :: world where
  "toolchain_world =
     \<lparr>fs = [[''proj''], [''proj'', ''Cargo.toml''],
             [''/'', ''opt'', ''android-ndk-r25c''],
             [''/'', ''opt'', ''android-ndk-r25c'', ''toolchains'', ''llvm'', ''prebuilt''],
             [''/'', ''opt'', ''android-ndk-r25c'', ''toolchains'', ''llvm'', ''prebuilt'',
              ''linux-x86_64'']],
      trace = []\<rparr>"

definition empty_state :: loop_state where
  "empty_state = \<lparr>results = [], android_targets = [], ios_targets = []\<rparr>"

subsection \<open>Evaluating the character tables\<close>

lemmas upper_char_table = upper_char_def [unfolded ascii_lowercase_def ascii_uppercase_def]
lemmas lower_char_table = lower_char_def [unfolded ascii_lowercase_def ascii_uppercase_def]

lemma upper_char_values:
  "upper_char (CHR ''a'') = CHR ''A''" "upper_char (CHR ''b'') = CHR ''B''"
  "upper_char (CHR ''c'') = CHR ''C''" "upper_char (CHR ''d'') = CHR ''D''"
  "upper_char (CHR ''e'') = CHR ''E''" "upper_char (CHR ''f'') = CHR ''F''"
  "upper_char (CHR ''g'') = CHR ''G''" "upper_char (CHR ''h'') = CHR ''H''"
  "upper_char (CHR ''i'') = CHR ''I''" "upper_char (CHR ''j'') = CHR ''J''"
  "upper_char (CHR ''k'') = CHR ''K''" "upper_char (CHR ''l'') = CHR ''L''"
  "upper_char (CHR ''m'') = CHR ''M''" "upper_char (CHR ''n'') = CHR ''N''"
  "upper_char (CHR ''o'') = CHR ''O''" "upper_char (CHR ''p'') = CHR ''P''"
  "upper_char (CHR ''q'') = CHR ''Q''" "upper_char (CHR ''r'') = CHR ''R''"
  "upper_char (CHR ''s'') = CHR ''S''" "upper_char (CHR ''t'') = CHR ''T''"
  "upper_char (CHR ''u'') = CHR ''U''" "upper_char (CHR ''v'') = CHR ''V''"
  "upper_char (CHR ''w'') = CHR ''W''" "upper_char (CHR ''x'') = CHR ''X''"
  "upper_char (CHR ''y'') = CHR ''Y''" "upper_char (CHR ''z'') = CHR ''Z''"
  "upper_char (CHR ''0'') = CHR ''0''" "upper_char (CHR ''1'') = CHR ''1''"
  "upper_char (CHR ''2'') = CHR ''2''" "upper_char (CHR ''3'') = CHR ''3''"
  "upper_char (CHR ''4'') = CHR ''4''" "upper_char (CHR ''5'') = CHR ''5''"
  "upper_char (CHR ''6'') = CHR ''6''" "upper_char (CHR ''7'') = CHR ''7''"
  "upper_char (CHR ''8'') = CHR ''8''" "upper_char (CHR ''9'') = CHR ''9''"
  "upper_char (CHR ''-'') = CHR ''-''" "upper_char (CHR ''_'') = CHR ''_''"
  by (simp_all add: upper_char_table)

lemmas target_upper_eval = target_upper_def upper_def replace_char_def upper_char_values

lemmas registry_eval = registry_triples_def TARGETS_values_def TARGETS_def mk_target_def

subsection \<open>The mangling is idempotent, and injective on the registry\<close>

lemma upper_not_lower: "set ascii_uppercase \<inter> set ascii_lowercase = {}"
  by (simp add: ascii_lowercase_def ascii_uppercase_def)

lemma upper_char_idem: "upper_char (upper_char c) = upper_char c"
proof (cases "map_of (zip ascii_lowercase ascii_uppercase) c")
  case None
  then show ?thesis by (simp add: upper_char_def)
next
  case (Some u)
  then have "u \<in> set ascii_uppercase"
    by (meson map_of_SomeD set_zip_rightD)
  with upper_not_lower have "u \<notin> set ascii_lowercase" by blast
  moreover have "map fst (zip ascii_lowercase ascii_uppercase) = ascii_lowercase"
    by (simp add: ascii_lowercase_def ascii_uppercase_def)
  ultimately have "map_of (zip ascii_lowercase ascii_uppercase) u = None"
    by (metis map_of_eq_None_iff set_map)
  with Some show ?thesis by (simp add: upper_char_def)
qed

lemma target_upper_idem: "target_upper (target_upper s) = target_upper s"
proof -
  let ?m = "\<lambda>c. if upper_char c = CHR ''-'' then CHR ''_'' else upper_char c"
  have m: "\<And>c. ?m (?m c) = ?m c"
    by (auto simp add: upper_char_idem upper_char_values)
  have t: "\<And>s. target_upper s = map ?m s"
    by (simp add: target_upper_def upper_def replace_char_def)
  have "map ?m (map ?m s) = map ?m s"
    unfolding map_map comp_def using m by simp
  then show ?thesis by (simp only: t)
qed

lemma registry_triples_eq:
  "registry_triples =
     [''x86_64-unknown-linux-gnu'', ''x86_64-apple-darwin'', ''aarch64-apple-darwin'',
      ''x86_64-pc-windows-msvc'', ''aarch64-linux-android'', ''armv7-linux-androideabi'',
      ''x86_64-linux-android'', ''i686-linux-android'', ''aarch64-apple-ios'',
      ''x86_64-apple-ios'', ''aarch64-apple-ios-sim'']"
  by (simp add: registry_eval)

lemma mangled_registry:
  "map target_upper registry_triples =
     [''X86_64_UNKNOWN_LINUX_GNU'', ''X86_64_APPLE_DARWIN'', ''AARCH64_APPLE_DARWIN'',
      ''X86_64_PC_WINDOWS_MSVC'', ''AARCH64_LINUX_ANDROID'', ''ARMV7_LINUX_ANDROIDEABI'',
      ''X86_64_LINUX_ANDROID'', ''I686_LINUX_ANDROID'', ''AARCH64_APPLE_IOS'',
      ''X86_64_APPLE_IOS'', ''AARCH64_APPLE_IOS_SIM'']"
  unfolding registry_triples_eq by (simp add: target_upper_eval)

lemma distinct_mangled: "distinct (map target_upper registry_triples)"
  unfolding mangled_registry by simp

text \<open>
  C3. The mangling of a triple into a variable name, \<open>target_upper\<close>, is idempotent on
  every string, and injective on the triples of the registry: two distinct triples of
  the catalogue never get the same mangled name.
\<close>

theorem target_upper_idempotent_injective:
  "target_upper (target_upper s) = target_upper s \<and> inj_on target_upper (set registry_triples)"
  using distinct_mangled by (simp add: target_upper_idem distinct_map)

theorem target_upper_idempotent_injective_witness:
  "target_upper (target_upper ''aarch64-linux-android'') = ''AARCH64_LINUX_ANDROID'' \<and>
   target_upper ''aarch64-linux-android'' \<noteq> target_upper ''x86_64-linux-android''"
proof -
  have m: "''aarch64-linux-android'' \<in> set registry_triples"
    "''x86_64-linux-android'' \<in> set registry_triples"
    by (simp_all add: registry_triples_eq)
  have v: "target_upper ''aarch64-linux-android'' = ''AARCH64_LINUX_ANDROID''"
    by (simp add: target_upper_eval)
  from target_upper_idempotent_injective [of "''aarch64-linux-android''"]
  have i: "target_upper (target_upper ''aarch64-linux-android'') =
      target_upper ''aarch64-linux-android''"
    and j: "inj_on target_upper (set registry_triples)" by blast+
  have "target_upper ''aarch64-linux-android'' \<noteq> target_upper ''x86_64-linux-android''"
  proof
    assume "target_upper ''aarch64-linux-android'' = target_upper ''x86_64-linux-android''"
    then have "''aarch64-linux-android'' = ''x86_64-linux-android''"
      using inj_onD [OF j _ m] by blast
    then show False by simp
  qed
  with i v show ?thesis by simp
qed

subsection \<open>The library file name depends on the platform only\<close>

text \<open>
  C8. The expected artifact file name is a function of the target's platform alone,
  and has exactly three shapes: \<^verbatim>\<open>rvpnse.dll\<close> on Windows, \<^verbatim>\<open>librvpnse.so\<close> on Linux and
  Android, \<^verbatim>\<open>librvpnse.dylib\<close> on macOS and iOS.
\<close>

theorem get_library_name_three_shapes:
  "get_library_name t =
     (case platform t of
        WINDOWS \<Rightarrow> ''rvpnse.dll''
      | LINUX \<Rightarrow> ''librvpnse.so''
      | ANDROID \<Rightarrow> ''librvpnse.so''
      | MACOS \<Rightarrow> ''librvpnse.dylib''
      | IOS \<Rightarrow> ''librvpnse.dylib'') \<and>
   (platform t = platform t' \<longrightarrow> get_library_name t = get_library_name t') \<and>
   card {''rvpnse.dll'', ''librvpnse.so'', ''librvpnse.dylib''} = 3"
  by (cases "platform t") (auto simp add: get_library_name_def)

theorem get_library_name_three_shapes_witness:
  "platform (mk_target ''android-x86'' ''i686-linux-android'' ANDROID ''x86'' (Some ''x86'') (Some 19)) =
   platform (mk_target ''android-arm64'' ''aarch64-linux-android'' ANDROID ''arm64'' (Some ''arm64-v8a'') (Some 21)) \<and>
   get_library_name (mk_target ''android-x86'' ''i686-linux-android'' ANDROID ''x86'' (Some ''x86'') (Some 19)) =
   get_library_name (mk_target ''android-arm64'' ''aarch64-linux-android'' ANDROID ''arm64'' (Some ''arm64-v8a'') (Some 21)) \<and>
   get_library_name (mk_target ''android-x86'' ''i686-linux-android'' ANDROID ''x86'' (Some ''x86'') (Some 19)) =
   ''librvpnse.so''"
  using get_library_name_three_shapes
    [of "mk_target ''android-x86'' ''i686-linux-android'' ANDROID ''x86'' (Some ''x86'') (Some 19)"
        "mk_target ''android-arm64'' ''aarch64-linux-android'' ANDROID ''arm64'' (Some ''arm64-v8a'') (Some 21)"]
  by (simp add: mk_target_def get_library_name_def)

subsection \<open>The log and the filesystem after each call\<close>

lemma trace_emit: "trace (emit e w) = trace w @ [e]"
  by (simp add: emit_def)

lemma fs_emit: "fs (emit e w) = fs w"
  by (simp add: emit_def)

lemma trace_ops:
  "trace (rmtree p w) = trace w @ [Rmtree p]"
  "trace (mkdir_parents p w) = trace w @ [Mkdir p]"
  "trace (mkdir p w) = trace w @ [Mkdir p]"
  "trace (copy2 src dst w) = trace w @ [Copy2 src dst]"
  "trace (copy2_into src dir w) = trace w @ [Copy2 src (dir @ [last src])]"
  "trace (write_text p w) = trace w @ [WriteText p]"
  "trace (chmod p w) = trace w @ [Chmod p]"
  "trace (make_archive base fmt root w) = trace w @ [MakeArchive base fmt root]"
  by (simp_all add: rmtree_def mkdir_parents_def mkdir_def copy2_def copy2_into_def
      write_text_def chmod_def make_archive_def trace_emit)

lemma fs_ops:
  "fs (rmtree p w) = filter (\<lambda>q. \<not> prefix p q) (fs w)"
  "fs (mkdir_parents p w) = tl (prefixes p) @ fs w"
  "fs (mkdir p w) = p # fs w"
  "fs (copy2 src dst w) = dst # fs w"
  "fs (copy2_into src dir w) = (dir @ [last src]) # fs w"
  "fs (write_text p w) = p # fs w"
  "fs (chmod p w) = fs w"
  "fs (make_archive base fmt root w) = archive_file base fmt # fs w"
  by (simp_all add: rmtree_def mkdir_parents_def mkdir_def copy2_def copy2_into_def
      write_text_def chmod_def make_archive_def fs_emit)

lemma run_command_trace:
  "trace (snd (run_command b h cmd cwd env w)) = trace w @ [Exec cmd]"
  by (simp add: run_command_def Let_def trace_emit split: prod.split)

lemma events_since_append: "trace w' = trace w @ es \<Longrightarrow> events_since w w' = es"
  by (simp add: events_since_def)

lemma events_since_self: "events_since w w = []"
  by (simp add: events_since_def)

subsection \<open>The build executor trusts the filesystem, not the exit status\<close>

lemma run_command_cargo:
  "run_command b h (cargo_build_cmd b t) None (Some env) w =
     (fst (tool_run b h t env w) = Exited 0,
      emit (Exec (cargo_build_cmd b t)) (w\<lparr>fs := snd (tool_run b h t env w)\<rparr>))"
  by (simp add: run_command_def tool_run_def Let_def split: prod.split)

lemma build_target_run:
  assumes "\<not> (platform t = ANDROID \<and> android_ndk_root b = None)"
    and "build_env b h t (clean_previous_build b t w) = Inr env"
  shows "fst (build_target b h t w) =
     Inr (fst (tool_run b h t env (clean_previous_build b t w)) = Exited 0 \<and>
          lib_path_of b t \<in> set (snd (tool_run b h t env (clean_previous_build b t w))))"
  using assms
  by (auto simp add: build_target_def Let_def run_command_cargo path_exists_def fs_emit)

lemma build_target_no_run:
  "platform t = ANDROID \<and> android_ndk_root b = None \<Longrightarrow>
     build_target b h t w = (Inr False, clean_previous_build b t w)"
  "\<not> (platform t = ANDROID \<and> android_ndk_root b = None) \<Longrightarrow>
     build_env b h t (clean_previous_build b t w) = Inl e \<Longrightarrow>
     build_target b h t w = (Inl e, clean_previous_build b t w)"
  by (auto simp add: build_target_def Let_def)

text \<open>
  C2. \<open>build_target\<close> returns True exactly when the build tool was run (the target is
  not an Android target without an NDK, and the environment could be set up), the tool
  left status 0, and the expected library exists afterwards at
  \<^verbatim>\<open>target/<triple>/<mode>/<library name>\<close>. When the tool leaves status 0 and the library is
  missing, the result is False.
\<close>

theorem build_target_success_iff:
  "(fst (build_target b h t w) = Inr True) =
     (\<not> (platform t = ANDROID \<and> android_ndk_root b = None) \<and>
      (\<exists>env. build_env b h t (clean_previous_build b t w) = Inr env \<and>
         fst (tool_run b h t env (clean_previous_build b t w)) = Exited 0 \<and>
         lib_path_of b t \<in> set (snd (tool_run b h t env (clean_previous_build b t w))))) \<and>
   (\<not> (platform t = ANDROID \<and> android_ndk_root b = None) \<and>
    build_env b h t (clean_previous_build b t w) = Inr env' \<and>
    fst (tool_run b h t env' (clean_previous_build b t w)) = Exited 0 \<and>
    lib_path_of b t \<notin> set (snd (tool_run b h t env' (clean_previous_build b t w)))
    \<longrightarrow> fst (build_target b h t w) = Inr False)"
proof (cases "platform t = ANDROID \<and> android_ndk_root b = None")
  case True
  then show ?thesis by (simp add: build_target_no_run(1))
next
  case False
  show ?thesis
  proof (cases "build_env b h t (clean_previous_build b t w)")
    case (Inl e)
    with False show ?thesis by (simp add: build_target_no_run(2))
  next
    case (Inr env)
    with False show ?thesis by (simp add: build_target_run [OF False Inr])
  qed
qed

lemmas stub_eval = stub_host_def stub_builder_def stub_world_def silent_exec_def
  linux_x64_def mk_target_def

theorem build_target_success_iff_witness:
  "build_env stub_builder (stub_host silent_exec) linux_x64
      (clean_previous_build stub_builder linux_x64 stub_world) = Inr [] \<and>
   fst (tool_run stub_builder (stub_host silent_exec) linux_x64 []
      (clean_previous_build stub_builder linux_x64 stub_world)) = Exited 0 \<and>
   lib_path_of stub_builder linux_x64 \<notin> set (snd (tool_run stub_builder (stub_host silent_exec)
      linux_x64 [] (clean_previous_build stub_builder linux_x64 stub_world))) \<and>
   fst (build_target stub_builder (stub_host silent_exec) linux_x64 stub_world) = Inr False"
proof -
  have e: "build_env stub_builder (stub_host silent_exec) linux_x64
      (clean_previous_build stub_builder linux_x64 stub_world) = Inr []"
    by (simp add: build_env_def stub_eval)
  have r: "tool_run stub_builder (stub_host silent_exec) linux_x64 []
      (clean_previous_build stub_builder linux_x64 stub_world) =
      (Exited 0, [[''proj''], [''proj'', ''Cargo.toml'']])"
    by (simp add: tool_run_def clean_previous_build_def path_exists_def stub_eval)
  have l: "lib_path_of stub_builder linux_x64 \<notin> set [[''proj''], [''proj'', ''Cargo.toml'']]"
    by (simp add: lib_path_of_def stub_eval)
  have p: "platform linux_x64 \<noteq> ANDROID"
    by (simp add: stub_eval)
  from build_target_success_iff
    [of stub_builder "stub_host silent_exec" linux_x64 stub_world "[]"] e r l p
  show ?thesis by simp
qed

subsection \<open>Locating the NDK\<close>

lemma ndk_from_environ_Some:
  "(ndk_from_environ h w = Some p) =
     (\<exists>r. map_of (environ h) ''ANDROID_NDK_ROOT'' = Some r \<and> r \<noteq> [] \<and>
          path_exists w (Path r) \<and> p = Path r)"
  by (auto simp add: ndk_from_environ_def split: option.splits)

lemma ndk_from_environ_None:
  "(ndk_from_environ h w = None) =
     (\<not> (\<exists>r. map_of (environ h) ''ANDROID_NDK_ROOT'' = Some r \<and> r \<noteq> [] \<and>
          path_exists w (Path r)))"
  by (auto simp add: ndk_from_environ_def split: option.splits)

lemma find_android_ndk_override:
  "map_of (environ h) ''ANDROID_NDK_ROOT'' = Some r \<Longrightarrow> r \<noteq> [] \<Longrightarrow> path_exists w (Path r) \<Longrightarrow>
     find_android_ndk h w = Some (Path r)"
  by (simp add: find_android_ndk_def ndk_from_environ_def)

lemma find_android_ndk_search:
  "\<not> (\<exists>r. map_of (environ h) ''ANDROID_NDK_ROOT'' = Some r \<and> r \<noteq> [] \<and> path_exists w (Path r)) \<Longrightarrow>
     (find_android_ndk h w = Some p) =
       (\<exists>i < length (possible_paths h).
          possible_paths h ! i = p \<and>
          path_exists w p \<and> path_exists w (p @ [''toolchains'', ''llvm'', ''prebuilt'']) \<and>
          (\<forall>j < i. \<not> (path_exists w (possible_paths h ! j) \<and>
             path_exists w (possible_paths h ! j @ [''toolchains'', ''llvm'', ''prebuilt'']))))"
  unfolding ndk_from_environ_None [symmetric]
  by (auto simp add: find_android_ndk_def find_Some_iff ndk_candidate_ok_def)

lemma find_android_ndk_None:
  "(find_android_ndk h w = None) =
     (\<not> (\<exists>r. map_of (environ h) ''ANDROID_NDK_ROOT'' = Some r \<and> r \<noteq> [] \<and> path_exists w (Path r)) \<and>
      (\<forall>p \<in> set (possible_paths h).
         \<not> (path_exists w p \<and> path_exists w (p @ [''toolchains'', ''llvm'', ''prebuilt'']))))"
  unfolding ndk_from_environ_None [symmetric]
  by (auto simp add: find_android_ndk_def find_None_iff ndk_candidate_ok_def split: option.splits)

lemma build_target_without_ndk:
  "android_ndk_root b = None \<Longrightarrow> platform t = ANDROID \<Longrightarrow>
     build_target b h t w = (Inr False, clean_previous_build b t w)"
  by (simp add: build_target_def Let_def)

lemma builder_ndk_update:
  "lib_path_of (b\<lparr>android_ndk_root := x\<rparr>) t = lib_path_of b t"
  "clean_previous_build (b\<lparr>android_ndk_root := x\<rparr>) t w = clean_previous_build b t w"
  "cargo_build_cmd (b\<lparr>android_ndk_root := x\<rparr>) t = cargo_build_cmd b t"
  "run_command (b\<lparr>android_ndk_root := x\<rparr>) h cmd cwd env w = run_command b h cmd cwd env w"
  "platform t \<noteq> ANDROID \<Longrightarrow> build_env (b\<lparr>android_ndk_root := x\<rparr>) h t w = build_env b h t w"
  by (simp_all add: lib_path_of_def clean_previous_build_def cargo_build_cmd_def
      run_command_def build_env_def split: option.split)

lemma build_target_ignores_ndk:
  "platform t \<noteq> ANDROID \<Longrightarrow>
     build_target (b\<lparr>android_ndk_root := x\<rparr>) h t w = build_target b h t w"
  by (auto simp add: build_target_def builder_ndk_update Let_def split: sum.split prod.split)

lemma clean_previous_build_events:
  "\<forall>e \<in> set (events_since w (clean_previous_build b t w)). e = Rmtree (build_dir b @ [rust_target t])"
  by (simp add: clean_previous_build_def Let_def events_since_def trace_ops)

text \<open>
  C6. \<open>find_android_ndk\<close> returns the path of \<^verbatim>\<open>ANDROID_NDK_ROOT\<close> whenever that variable
  is set, not empty, and names a path that exists, with no look at the structure below
  it. Otherwise it returns the first of the four conventional locations, in their
  order, that exists and holds \<^verbatim>\<open>toolchains/llvm/prebuilt\<close>. It returns None, and raises
  nothing, exactly when neither applies. With no NDK, \<open>build_target\<close> fails an Android
  target without running any command, and the build of any other target is the same
  whatever the NDK is.
\<close>

theorem find_android_ndk_order:
  "(map_of (environ h) ''ANDROID_NDK_ROOT'' = Some r \<and> r \<noteq> [] \<and> path_exists w (Path r)
      \<longrightarrow> find_android_ndk h w = Some (Path r)) \<and>
   (\<not> (\<exists>r. map_of (environ h) ''ANDROID_NDK_ROOT'' = Some r \<and> r \<noteq> [] \<and> path_exists w (Path r))
      \<longrightarrow> (find_android_ndk h w = Some p) =
       (\<exists>i < length (possible_paths h).
          possible_paths h ! i = p \<and>
          path_exists w p \<and> path_exists w (p @ [''toolchains'', ''llvm'', ''prebuilt'']) \<and>
          (\<forall>j < i. \<not> (path_exists w (possible_paths h ! j) \<and>
             path_exists w (possible_paths h ! j @ [''toolchains'', ''llvm'', ''prebuilt'']))))) \<and>
   (find_android_ndk h w = None) =
     (\<not> (\<exists>r. map_of (environ h) ''ANDROID_NDK_ROOT'' = Some r \<and> r \<noteq> [] \<and> path_exists w (Path r)) \<and>
      (\<forall>p \<in> set (possible_paths h).
         \<not> (path_exists w p \<and> path_exists w (p @ [''toolchains'', ''llvm'', ''prebuilt''])))) \<and>
   (android_ndk_root b = None \<and> platform t = ANDROID
      \<longrightarrow> fst (build_target b h t w') = Inr False \<and>
          (\<forall>e \<in> set (events_since w' (snd (build_target b h t w'))).
             e = Rmtree (build_dir b @ [rust_target t]))) \<and>
   (platform t' \<noteq> ANDROID
      \<longrightarrow> build_target (b\<lparr>android_ndk_root := x\<rparr>) h t' w' = build_target b h t' w')"
  using find_android_ndk_override [of h r w] find_android_ndk_search [of h w p]
    find_android_ndk_None [of h w] build_target_without_ndk [of b t h w']
    build_target_ignores_ndk [where t = t' and b = b and x = x and h = h and w = w']
    clean_previous_build_events [of w' b t]
  by simp

lemma possible_paths_stub:
  "possible_paths (stub_host ex) =
     [[''/'', ''home'', ''dev'', ''Android'', ''Sdk'', ''ndk'', ''25.2.9519653''],
      [''/'', ''home'', ''dev'', ''Library'', ''Android'', ''sdk'', ''ndk'', ''25.2.9519653''],
      [''/'', ''usr'', ''local'', ''android-ndk-r25c''],
      [''/'', ''opt'', ''android-ndk-r25c'']]"
  by (simp add: possible_paths_def stub_host_def)

theorem find_android_ndk_order_witness:
  "find_android_ndk (stub_host silent_exec) ndk_world = Some [''/'', ''opt'', ''android-ndk-r25c''] \<and>
   path_exists ndk_world [''/'', ''usr'', ''local'', ''android-ndk-r25c''] \<and>
   find_android_ndk (stub_host silent_exec) stub_world = None \<and>
   fst (build_target stub_builder (stub_host silent_exec) android_arm64 stub_world) = Inr False"
proof -
  note inst = find_android_ndk_order [where h = "stub_host silent_exec" and b = stub_builder
      and t = android_arm64 and w' = stub_world]
  have n: "map_of (environ (stub_host silent_exec)) ''ANDROID_NDK_ROOT'' = None"
    by (simp add: stub_host_def)
  have i: "\<exists>i < length (possible_paths (stub_host silent_exec)).
      possible_paths (stub_host silent_exec) ! i = [''/'', ''opt'', ''android-ndk-r25c''] \<and>
      path_exists ndk_world [''/'', ''opt'', ''android-ndk-r25c''] \<and>
      path_exists ndk_world
        ([''/'', ''opt'', ''android-ndk-r25c''] @ [''toolchains'', ''llvm'', ''prebuilt'']) \<and>
      (\<forall>j < i. \<not> (path_exists ndk_world (possible_paths (stub_host silent_exec) ! j) \<and>
         path_exists ndk_world
           (possible_paths (stub_host silent_exec) ! j @ [''toolchains'', ''llvm'', ''prebuilt''])))"
    by (rule exI [of _ 3])
      (auto simp add: possible_paths_stub path_exists_def ndk_world_def less_Suc_eq
        numeral_3_eq_3)
  have a: "find_android_ndk (stub_host silent_exec) ndk_world =
      Some [''/'', ''opt'', ''android-ndk-r25c'']"
    using inst [where w = ndk_world and p = "[''/'', ''opt'', ''android-ndk-r25c'']"] n i
    by simp
  have u: "path_exists ndk_world [''/'', ''usr'', ''local'', ''android-ndk-r25c'']"
    by (simp add: path_exists_def ndk_world_def)
  have m: "\<forall>p \<in> set (possible_paths (stub_host silent_exec)). \<not> path_exists stub_world p"
    by (simp add: possible_paths_stub path_exists_def stub_world_def)
  have c: "find_android_ndk (stub_host silent_exec) stub_world = None"
    using inst [where w = stub_world] n m by simp
  have d: "fst (build_target stub_builder (stub_host silent_exec) android_arm64 stub_world) =
      Inr False"
    using inst by (simp add: stub_builder_def android_arm64_def mk_target_def)
  from a u c d show ?thesis by simp
qed

subsection \<open>A batch with an unknown name\<close>

lemma add_rust_targets_trace:
  "trace (add_rust_targets b h rs w) =
     trace w @ map (\<lambda>r. Exec [''rustup'', ''target'', ''add'', r]) rs"
  by (induction rs arbitrary: w) (simp_all add: run_command_trace)

lemma setup_rust_environment_events:
  "events_since w (snd (setup_rust_environment b h w)) =
     (if which h ''cargo'' = None then []
      else map (\<lambda>r. Exec [''rustup'', ''target'', ''add'', r]) registry_triples)"
  by (simp add: setup_rust_environment_def events_since_def add_rust_targets_trace
      registry_triples_def)

lemma setup_rust_environment_trace:
  "trace (snd (setup_rust_environment b h w)) =
     trace w @ events_since w (snd (setup_rust_environment b h w))"
  by (simp add: setup_rust_environment_def events_since_def add_rust_targets_trace)

lemma setup_rust_environment_ok:
  "fst (setup_rust_environment b h w) = (which h ''cargo'' \<noteq> None)"
  by (simp add: setup_rust_environment_def)

lemma clean_output_dir_trace:
  "trace (clean_output_dir b w) =
     trace w @ (if path_exists w (output_dir b) then [Rmtree (output_dir b)] else []) @
     [Mkdir (output_dir b)]"
  by (simp add: clean_output_dir_def trace_ops)

lemma invalid_targets_iff:
  "(invalid_targets_of target_names \<noteq> []) = (\<exists>n \<in> set target_names. map_of TARGETS n = None)"
  by (auto simp add: invalid_targets_of_def filter_empty_conv)

lemma build_rejected:
  assumes "\<exists>n \<in> set target_names. map_of TARGETS n = None"
  shows "build b h target_names w =
     (Inr [],
      if which h ''cargo'' = None then w
      else clean_output_dir b (snd (setup_rust_environment b h w)))"
proof -
  from assms have "invalid_targets_of target_names \<noteq> []"
    by (simp add: invalid_targets_iff)
  then show ?thesis
    by (simp add: build_def Let_def setup_rust_environment_def split: prod.split)
qed

lemma build_rejected_events:
  assumes "\<exists>n \<in> set target_names. map_of TARGETS n = None"
  shows "\<forall>e \<in> set (events_since w (snd (build b h target_names w))).
     (\<exists>r. e = Exec [''rustup'', ''target'', ''add'', r]) \<or>
     e = Rmtree (output_dir b) \<or> e = Mkdir (output_dir b)"
proof (cases "which h ''cargo'' = None")
  case True
  with assms show ?thesis by (simp add: build_rejected events_since_self)
next
  case False
  let ?w1 = "snd (setup_rust_environment b h w)"
  from False have "events_since w ?w1 =
      map (\<lambda>r. Exec [''rustup'', ''target'', ''add'', r]) registry_triples"
    by (simp only: setup_rust_environment_events if_False)
  with setup_rust_environment_trace [of b h w] have "trace ?w1 =
      trace w @ map (\<lambda>r. Exec [''rustup'', ''target'', ''add'', r]) registry_triples"
    by simp
  then have "trace (clean_output_dir b ?w1) =
      trace w @ (map (\<lambda>r. Exec [''rustup'', ''target'', ''add'', r]) registry_triples @
        (if path_exists ?w1 (output_dir b) then [Rmtree (output_dir b)] else []) @
        [Mkdir (output_dir b)])"
    by (simp add: clean_output_dir_trace)
  then have "events_since w (clean_output_dir b ?w1) =
      map (\<lambda>r. Exec [''rustup'', ''target'', ''add'', r]) registry_triples @
        (if path_exists ?w1 (output_dir b) then [Rmtree (output_dir b)] else []) @
        [Mkdir (output_dir b)]"
    by (rule events_since_append)
  with assms False show ?thesis
    by (auto simp add: build_rejected)
qed

lemma cargo_build_not_rustup:
  "Exec (cargo_build_cmd b t) \<noteq> Exec [''rustup'', ''target'', ''add'', r]"
  by (simp add: cargo_build_cmd_def)

text \<open>
  C1. When a requested name is not in the registry, \<open>build\<close> returns the empty result
  mapping, so no requested target has an entry, the valid ones included, and it runs no
  build: every event it logs is a \<^verbatim>\<open>rustup target add\<close> of the set-up step or the
  clearing of the output directory, and none is a \<^verbatim>\<open>cargo build\<close> of any target.
\<close>

theorem build_rejects_whole_batch:
  assumes "\<exists>n \<in> set target_names. map_of TARGETS n = None"
  shows "fst (build b h target_names w) = Inr [] \<and>
     (\<forall>e \<in> set (events_since w (snd (build b h target_names w))).
        ((\<exists>r. e = Exec [''rustup'', ''target'', ''add'', r]) \<or>
         e = Rmtree (output_dir b) \<or> e = Mkdir (output_dir b)) \<and>
        (\<forall>t. e \<noteq> Exec (cargo_build_cmd b t)))"
proof -
  have r: "fst (build b h target_names w) = Inr []"
    using assms by (simp add: build_rejected)
  have "\<forall>e \<in> set (events_since w (snd (build b h target_names w))).
      \<forall>t. e \<noteq> Exec (cargo_build_cmd b t)"
    using build_rejected_events [OF assms, of w b h]
    by (auto simp add: cargo_build_cmd_def)
  with r build_rejected_events [OF assms, of w b h] show ?thesis by blast
qed

lemma unknown_name: "map_of TARGETS ''nope'' = None"
  by (simp add: TARGETS_def)

theorem build_rejects_whole_batch_witness:
  "map_of TARGETS ''nope'' = None \<and>
   fst (build stub_builder (stub_host writing_exec) [''linux-x64'', ''nope''] stub_world) = Inr [] \<and>
   Exec (cargo_build_cmd stub_builder linux_x64) \<notin>
     set (events_since stub_world
       (snd (build stub_builder (stub_host writing_exec) [''linux-x64'', ''nope''] stub_world)))"
proof -
  have "\<exists>n \<in> set [''linux-x64'', ''nope'']. map_of TARGETS n = None"
    by (simp add: unknown_name)
  from build_rejects_whole_batch [OF this, of stub_builder "stub_host writing_exec" stub_world]
  show ?thesis by (auto simp add: unknown_name)
qed

subsection \<open>The output directory is cleared before the names are checked\<close>

lemma rmtree_removes: "prefix p q \<Longrightarrow> \<not> path_exists (rmtree p w) q"
  by (simp add: path_exists_def fs_ops)

lemma path_exists_mkdir_parents:
  "path_exists (mkdir_parents p w) q = (q \<in> set (tl (prefixes p)) \<or> path_exists w q)"
  by (simp add: path_exists_def fs_ops)

lemma in_tl_prefixes: "q \<in> set (tl (prefixes p)) \<Longrightarrow> prefix q p"
  by (metis in_set_prefixes list.sel(2) list.set_sel(2))

lemma self_in_tl_prefixes: "p \<noteq> [] \<Longrightarrow> p \<in> set (tl (prefixes p))"
  by (cases p) (simp_all add: )

lemma clean_output_dir_empties:
  assumes "\<forall>p. path_exists w p \<and> prefix (output_dir b) p \<longrightarrow> path_exists w (output_dir b)"
    and "strict_prefix (output_dir b) q"
  shows "\<not> path_exists (clean_output_dir b w) q"
proof -
  from assms(2) have pq: "prefix (output_dir b) q" and nq: "\<not> prefix q (output_dir b)"
    by (auto simp add: strict_prefix_def)
  from nq have "q \<notin> set (tl (prefixes (output_dir b)))"
    using in_tl_prefixes by blast
  moreover have "\<not> path_exists
      (if path_exists w (output_dir b) then rmtree (output_dir b) w else w) q"
    using assms(1) pq by (auto simp add: rmtree_removes)
  ultimately show ?thesis
    by (simp add: clean_output_dir_def path_exists_mkdir_parents)
qed

lemma clean_output_dir_rmtree:
  "path_exists w (output_dir b) \<Longrightarrow>
     Rmtree (output_dir b) \<in> set (events_since w (clean_output_dir b w))"
  by (simp add: events_since_def clean_output_dir_trace)

text \<open>
  C10. \<open>build\<close> clears the output directory before it checks the names. With the build
  tool present and a name that is not in the registry, the batch is rejected with the
  empty result, and still nothing is left below the output directory (provided the
  filesystem that the set-up step leaves holds the output directory whenever it holds a
  path below it); every archive of an earlier run is gone.
\<close>

theorem build_clears_output_before_validation:
  assumes "\<exists>n \<in> set target_names. map_of TARGETS n = None"
    and "which h ''cargo'' \<noteq> None"
    and "\<forall>p. path_exists (snd (setup_rust_environment b h w)) p \<and> prefix (output_dir b) p
           \<longrightarrow> path_exists (snd (setup_rust_environment b h w)) (output_dir b)"
  shows "fst (build b h target_names w) = Inr [] \<and>
     (\<forall>q. strict_prefix (output_dir b) q \<longrightarrow> \<not> path_exists (snd (build b h target_names w)) q) \<and>
     (\<forall>t. Exec (cargo_build_cmd b t) \<notin> set (events_since w (snd (build b h target_names w))))"
proof -
  from assms(1,2) have s: "build b h target_names w =
      (Inr [], clean_output_dir b (snd (setup_rust_environment b h w)))"
    by (simp add: build_rejected del: not_None_eq)
  have "\<forall>q. strict_prefix (output_dir b) q \<longrightarrow>
      \<not> path_exists (clean_output_dir b (snd (setup_rust_environment b h w))) q"
    using clean_output_dir_empties [OF assms(3)] by blast
  moreover have "\<forall>t. Exec (cargo_build_cmd b t) \<notin>
      set (events_since w (snd (build b h target_names w)))"
    using build_rejected_events [OF assms(1), of w b h]
    by (auto simp add: cargo_build_cmd_def)
  ultimately show ?thesis using s by simp
qed

lemma add_rust_targets_stub_fs:
  "fs (add_rust_targets b (stub_host writing_exec) rs w) = fs w"
  by (induction rs arbitrary: w)
    (simp_all add: run_command_def stub_host_def writing_exec_def fs_emit)

lemma setup_stub_fs:
  "fs (snd (setup_rust_environment b (stub_host writing_exec) w)) = fs w"
  by (simp add: setup_rust_environment_def add_rust_targets_stub_fs)

theorem build_clears_output_before_validation_witness:
  "path_exists old_world [''proj'', ''dist'', ''rvpnse-linux-x64.tar.gz''] \<and>
   fst (build stub_builder (stub_host writing_exec) [''nope''] old_world) = Inr [] \<and>
   \<not> path_exists (snd (build stub_builder (stub_host writing_exec) [''nope''] old_world))
       [''proj'', ''dist'', ''rvpnse-linux-x64.tar.gz'']"
proof -
  have a: "\<exists>n \<in> set [''nope'']. map_of TARGETS n = None"
    by (simp add: unknown_name)
  have c: "which (stub_host writing_exec) ''cargo'' \<noteq> None"
    by (simp add: stub_host_def)
  have d: "\<forall>p. path_exists (snd (setup_rust_environment stub_builder (stub_host writing_exec) old_world)) p \<and>
        prefix (output_dir stub_builder) p
      \<longrightarrow> path_exists (snd (setup_rust_environment stub_builder (stub_host writing_exec) old_world))
            (output_dir stub_builder)"
    by (simp add: path_exists_def setup_stub_fs old_world_def stub_builder_def)
  have e: "path_exists old_world [''proj'', ''dist'', ''rvpnse-linux-x64.tar.gz'']"
    by (simp add: path_exists_def old_world_def)
  have s: "strict_prefix (output_dir stub_builder) [''proj'', ''dist'', ''rvpnse-linux-x64.tar.gz'']"
    by (simp add: stub_builder_def strict_prefix_def)
  from build_clears_output_before_validation [OF a c d] e s
  show ?thesis by blast
qed

subsection \<open>The exit status\<close>

lemma success_count_all: "(success_count_of rs = length rs) = (\<forall>x \<in> set rs. snd x)"
proof (induction rs)
  case Nil
  then show ?case by (simp add: success_count_of_def)
next
  case (Cons x rs)
  show ?case
  proof (cases "snd x")
    case True
    with Cons show ?thesis by (simp add: success_count_of_def)
  next
    case False
    have "length (filter snd rs) \<le> length rs" by simp
    then have "length (filter snd rs) \<noteq> Suc (length rs)" by linarith
    with False show ?thesis by (simp add: success_count_of_def)
  qed
qed

lemma main_exit_status:
  assumes "init_builder root (arg_mode a) h w = Inr b"
    and "\<not> arg_list a" and "\<not> arg_clean a" and "targets_to_build a h \<noteq> []"
    and "fst (build b h (targets_to_build a h) w) = Inr rs"
  shows "exit_status (fst (main a root h w)) = (if \<forall>x \<in> set rs. snd x then 0 else 1)"
  using assms
  by (cases "build b h (targets_to_build a h) w")
    (simp add: main_def Let_def exit_status_def success_count_all)

lemma main_exit_zero_on_rejected_batch:
  assumes "init_builder root (arg_mode a) h w = Inr b"
    and "\<not> arg_list a" and "\<not> arg_clean a"
    and "\<exists>n \<in> set (targets_to_build a h). map_of TARGETS n = None"
  shows "exit_status (fst (main a root h w)) = 0"
proof -
  from assms(4) have ne: "targets_to_build a h \<noteq> []" by auto
  have "fst (build b h (targets_to_build a h) w) = Inr []"
    using assms(4) by (simp add: build_rejected)
  from main_exit_status [OF assms(1-3) ne this] show ?thesis by simp
qed

text \<open>
  C5. The claim fails on the code. For \<^verbatim>\<open>--targets nope\<close>, with the build tool
  present, \<open>build\<close> rejects the batch and returns the empty mapping, \<open>main\<close> counts 0
  successes among 0 results, and the exit status is 0 although the requested target was
  never built.
\<close>

theorem main_exits_zero_on_unknown_target:
  "targets_to_build (targets_args [''nope'']) (stub_host writing_exec) = [''nope''] \<and>
   map_of TARGETS ''nope'' = None \<and>
   fst (build stub_builder (stub_host writing_exec) [''nope''] stub_world) = Inr [] \<and>
   exit_status (fst (main (targets_args [''nope'']) [''proj''] (stub_host writing_exec) stub_world)) = 0"
  by code_simp

subsection \<open>Staging directories\<close>

lemma package_target_removes_staging:
  assumes "fst (package_target b t w) \<noteq> None"
    and "prefix (output_dir b @ [''rvpnse-'' @ name t]) q"
  shows "\<not> path_exists (snd (package_target b t w)) q"
  using assms by (auto simp add: package_target_def Let_def rmtree_removes split: if_splits)

lemma package_android_bundle_removes_staging:
  assumes "fst (package_android_bundle b ts w) = Inr r"
    and "prefix (output_dir b @ [''rvpnse-android'']) q"
  shows "\<not> path_exists (snd (package_android_bundle b ts w)) q"
  using assms
  by (auto simp add: package_android_bundle_def Let_def rmtree_removes
      split: prod.splits sum.splits)

lemma package_ios_bundle_removes_staging:
  assumes "fst (package_ios_bundle b h ts w) = Some a"
    and "prefix (output_dir b @ [''rvpnse-ios'']) q"
  shows "\<not> path_exists (snd (package_ios_bundle b h ts w)) q"
  using assms
  by (auto simp add: package_ios_bundle_def Let_def rmtree_removes
      split: prod.splits if_splits)

text \<open>
  C9. The claim fails on the code where the iOS packaging ends early. A request for
  the two simulator targets, with a build tool that succeeds and a \<^verbatim>\<open>lipo\<close> that fails:
  both builds succeed, \<open>package_ios_bundle\<close> returns after the failed merge without
  removing what it created, and the bundle directory \<^verbatim>\<open>dist/rvpnse-ios\<close> with its
  simulator framework directory is left in the output directory, with no archive.
\<close>

theorem ios_bundle_dir_left_after_failed_merge:
  "fst (build stub_builder (stub_host writing_exec) [''ios-x64-sim'', ''ios-arm64-sim''] stub_world) =
     Inr [(''ios-x64-sim'', True), (''ios-arm64-sim'', True)] \<and>
   path_exists
     (snd (build stub_builder (stub_host writing_exec) [''ios-x64-sim'', ''ios-arm64-sim''] stub_world))
     [''proj'', ''dist'', ''rvpnse-ios''] \<and>
   path_exists
     (snd (build stub_builder (stub_host writing_exec) [''ios-x64-sim'', ''ios-arm64-sim''] stub_world))
     [''proj'', ''dist'', ''rvpnse-ios'', ''rVPNSE-Simulator.framework''] \<and>
   \<not> path_exists
     (snd (build stub_builder (stub_host writing_exec) [''ios-x64-sim'', ''ios-arm64-sim''] stub_world))
     [''proj'', ''dist'', ''rvpnse-ios.tar.gz'']"
  by code_simp

subsection \<open>The iOS bundle: two groups, never mixed\<close>

lemma group_ios_targets_acc:
  "group_ios_targets b w ts dev sim =
     (dev @ map (\<lambda>t. (t, ios_lib_path b t))
        (filter (\<lambda>t. path_exists w (ios_lib_path b t) \<and> rust_target t = ''aarch64-apple-ios'') ts),
      sim @ map (\<lambda>t. (t, ios_lib_path b t))
        (filter (\<lambda>t. path_exists w (ios_lib_path b t) \<and> rust_target t \<noteq> ''aarch64-apple-ios'') ts))"
  by (induction ts arbitrary: dev sim) (simp_all add: Let_def)

lemma events_since_trans:
  "trace w' = trace w @ es \<Longrightarrow> trace w'' = trace w' @ es' \<Longrightarrow> events_since w w'' = es @ es'"
  by (simp add: events_since_def)

lemma create_framework_trace:
  "trace (snd (create_framework b h bundle_dir fw g w)) =
     trace w @ (if g = [] then []
                else Mkdir (bundle_dir @ [fw]) #
                     framework_binary_events (bundle_dir @ [fw, ''rVPNSE'']) g)"
  by (simp add: create_framework_def framework_binary_events_def Let_def trace_ops
      run_command_trace)

lemma create_framework_ok:
  "fst (create_framework b h bundle_dir fw g w) =
     (length g \<le> 1 \<or>
      fst (exec h (lipo_cmd (bundle_dir @ [fw, ''rVPNSE'']) g) (project_root b) (environ h)
             (fs (mkdir_parents (bundle_dir @ [fw]) w))) = Exited 0)"
  by (cases g) (auto simp add: create_framework_def Let_def run_command_def split: prod.split)

lemma add_framework_metadata_trace:
  "\<exists>es. trace (add_framework_metadata b bundle_dir fw w) = trace w @ es \<and>
        (\<forall>e \<in> set es. \<not> writes_binary e \<and> \<not> is_archive e \<and> \<not> is_cargo_build e)"
  by (simp add: add_framework_metadata_def Let_def trace_ops writes_binary_def is_archive_def
      is_cargo_build_def)

lemma copy_if_exists_trace:
  "trace (copy_if_exists f dir w) =
     trace w @ (if path_exists w f then [Copy2 f (dir @ [last f])] else [])"
  by (simp add: copy_if_exists_def trace_ops)


lemma ios_finish_trace:
  "\<exists>es. trace (rmtree bundle_dir
            (make_archive base ''gztar'' bundle_dir
              (chmod script
                (write_text script
                  (copy_if_exists (root @ [''README.md'']) bundle_dir
                    (add_framework_metadata b bundle_dir fw2
                      (add_framework_metadata b bundle_dir fw1 w))))))) = trace w @ es \<and>
        filter writes_binary es = [] \<and>
        filter is_archive es = [MakeArchive base ''gztar'' bundle_dir] \<and>
        filter is_cargo_build es = []"
proof -
  obtain es1 where 1: "trace (add_framework_metadata b bundle_dir fw1 w) = trace w @ es1"
    and p1: "\<forall>e \<in> set es1. \<not> writes_binary e \<and> \<not> is_archive e \<and> \<not> is_cargo_build e"
    using add_framework_metadata_trace by blast
  obtain es2 where 2: "trace (add_framework_metadata b bundle_dir fw2
        (add_framework_metadata b bundle_dir fw1 w)) =
      trace (add_framework_metadata b bundle_dir fw1 w) @ es2"
    and p2: "\<forall>e \<in> set es2. \<not> writes_binary e \<and> \<not> is_archive e \<and> \<not> is_cargo_build e"
    using add_framework_metadata_trace by blast
  from p1 p2 have f: "filter writes_binary es1 = []" "filter writes_binary es2 = []"
    "filter is_archive es1 = []" "filter is_archive es2 = []"
    "filter is_cargo_build es1 = []" "filter is_cargo_build es2 = []"
    by (simp_all add: filter_empty_conv)
  have k: "\<not> writes_binary (Copy2 (root @ [''README.md'']) (bundle_dir @ [''README.md'']))"
    "\<not> writes_binary (WriteText script)" "\<not> writes_binary (Chmod script)"
    "\<not> writes_binary (MakeArchive base ''gztar'' bundle_dir)" "\<not> writes_binary (Rmtree bundle_dir)"
    "\<not> is_archive (Copy2 (root @ [''README.md'']) (bundle_dir @ [''README.md'']))"
    "\<not> is_archive (WriteText script)" "\<not> is_archive (Chmod script)"
    "is_archive (MakeArchive base ''gztar'' bundle_dir)" "\<not> is_archive (Rmtree bundle_dir)"
    "\<not> is_cargo_build (Copy2 (root @ [''README.md'']) (bundle_dir @ [''README.md'']))"
    "\<not> is_cargo_build (WriteText script)" "\<not> is_cargo_build (Chmod script)"
    "\<not> is_cargo_build (MakeArchive base ''gztar'' bundle_dir)" "\<not> is_cargo_build (Rmtree bundle_dir)"
    by (simp_all add: writes_binary_def is_archive_def is_cargo_build_def)
  show ?thesis
    using 1 2 f k by (simp add: trace_ops copy_if_exists_trace)
qed

lemma package_ios_bundle_cases:
  "package_ios_bundle b h ts w =
     (let bundle_dir = output_dir b @ [''rvpnse-ios''];
          w1 = mkdir_parents bundle_dir w;
          dev = fst (group_ios_targets b w1 ts [] []);
          sim = snd (group_ios_targets b w1 ts [] []);
          dstep = create_framework b h bundle_dir ''rVPNSE-Device.framework'' dev w1;
          sstep = create_framework b h bundle_dir ''rVPNSE-Simulator.framework'' sim (snd dstep)
      in if dev = [] \<and> sim = [] then (None, w1)
         else if \<not> fst dstep then (None, snd dstep)
         else if \<not> fst sstep then (None, snd sstep)
         else (Some (output_dir b @ [''rvpnse-ios.tar.gz'']),
               rmtree bundle_dir
                 (make_archive
                   (with_suffix_empty (with_suffix_empty (output_dir b @ [''rvpnse-ios.tar.gz''])))
                   ''gztar'' bundle_dir
                   (chmod (bundle_dir @ [''install.sh''])
                     (write_text (bundle_dir @ [''install.sh''])
                       (copy_if_exists (project_root b @ [''README.md'']) bundle_dir
                         (add_framework_metadata b bundle_dir ''rVPNSE-Simulator.framework''
                           (add_framework_metadata b bundle_dir ''rVPNSE-Device.framework''
                             (snd sstep)))))))))"
  by (simp add: package_ios_bundle_def Let_def case_prod_beta)

lemma package_ios_bundle_binary_events:
  "filter writes_binary (events_since w (snd (package_ios_bundle b h ts w))) =
     framework_binary_events
       (output_dir b @ [''rvpnse-ios'', ''rVPNSE-Device.framework'', ''rVPNSE''])
       (fst (group_ios_targets b (mkdir_parents (output_dir b @ [''rvpnse-ios'']) w) ts [] [])) @
     (if fst (create_framework b h (output_dir b @ [''rvpnse-ios'']) ''rVPNSE-Device.framework''
               (fst (group_ios_targets b (mkdir_parents (output_dir b @ [''rvpnse-ios'']) w) ts [] []))
               (mkdir_parents (output_dir b @ [''rvpnse-ios'']) w))
      then framework_binary_events
             (output_dir b @ [''rvpnse-ios'', ''rVPNSE-Simulator.framework'', ''rVPNSE''])
             (snd (group_ios_targets b (mkdir_parents (output_dir b @ [''rvpnse-ios'']) w) ts [] []))
      else [])"
proof -
  define bundle_dir where "bundle_dir = output_dir b @ [''rvpnse-ios'']"
  define w1 where "w1 = mkdir_parents bundle_dir w"
  define dev where "dev = fst (group_ios_targets b w1 ts [] [])"
  define sim where "sim = snd (group_ios_targets b w1 ts [] [])"
  define dstep where "dstep = create_framework b h bundle_dir ''rVPNSE-Device.framework'' dev w1"
  define sstep where
    "sstep = create_framework b h bundle_dir ''rVPNSE-Simulator.framework'' sim (snd dstep)"
  define de where "de = framework_binary_events (bundle_dir @ [''rVPNSE-Device.framework'', ''rVPNSE'']) dev"
  define se where "se = framework_binary_events (bundle_dir @ [''rVPNSE-Simulator.framework'', ''rVPNSE'']) sim"
  have wb_de: "filter writes_binary de = de" and wb_se: "filter writes_binary se = se"
    by (simp_all add: de_def se_def framework_binary_events_def writes_binary_def lipo_cmd_def)
  have t1: "trace w1 = trace w @ [Mkdir bundle_dir]"
    by (simp add: w1_def trace_ops)
  have t2: "trace (snd dstep) = trace w1 @ (if dev = [] then [] else Mkdir (bundle_dir @ [''rVPNSE-Device.framework'']) # de)"
    by (simp add: dstep_def de_def create_framework_trace)
  have t3: "trace (snd sstep) = trace (snd dstep) @ (if sim = [] then [] else Mkdir (bundle_dir @ [''rVPNSE-Simulator.framework'']) # se)"
    by (simp add: sstep_def se_def create_framework_trace)
  have e_de: "dev = [] \<Longrightarrow> de = []" and e_se: "sim = [] \<Longrightarrow> se = []"
    by (simp_all add: de_def se_def framework_binary_events_def)
  obtain es where t4: "trace (rmtree bundle_dir
                 (make_archive
                   (with_suffix_empty (with_suffix_empty (output_dir b @ [''rvpnse-ios.tar.gz''])))
                   ''gztar'' bundle_dir
                   (chmod (bundle_dir @ [''install.sh''])
                     (write_text (bundle_dir @ [''install.sh''])
                       (copy_if_exists (project_root b @ [''README.md'']) bundle_dir
                         (add_framework_metadata b bundle_dir ''rVPNSE-Simulator.framework''
                           (add_framework_metadata b bundle_dir ''rVPNSE-Device.framework''
                             (snd sstep)))))))) = trace (snd sstep) @ es"
    and p4: "filter writes_binary es = []"
    using ios_finish_trace [of bundle_dir _ _ "project_root b"] by blast
  have "filter writes_binary (events_since w (snd (package_ios_bundle b h ts w))) =
      de @ (if fst dstep then se else [])"
    unfolding package_ios_bundle_cases Let_def
    unfolding bundle_dir_def [symmetric] w1_def [symmetric] dev_def [symmetric]
      sim_def [symmetric] dstep_def [symmetric] sstep_def [symmetric]
    using t1 t2 t3 t4 p4 wb_de wb_se e_de e_se
    by (auto simp add: events_since_def writes_binary_def)
  then show ?thesis
    by (simp add: de_def se_def dstep_def dev_def sim_def w1_def bundle_dir_def)
qed


lemma package_ios_bundle_result:
  "(fst (package_ios_bundle b h ts w) = None) =
     ((fst (group_ios_targets b (mkdir_parents (output_dir b @ [''rvpnse-ios'']) w) ts [] []) = [] \<and>
       snd (group_ios_targets b (mkdir_parents (output_dir b @ [''rvpnse-ios'']) w) ts [] []) = []) \<or>
      \<not> fst (create_framework b h (output_dir b @ [''rvpnse-ios'']) ''rVPNSE-Device.framework''
               (fst (group_ios_targets b (mkdir_parents (output_dir b @ [''rvpnse-ios'']) w) ts [] []))
               (mkdir_parents (output_dir b @ [''rvpnse-ios'']) w)) \<or>
      \<not> fst (create_framework b h (output_dir b @ [''rvpnse-ios'']) ''rVPNSE-Simulator.framework''
               (snd (group_ios_targets b (mkdir_parents (output_dir b @ [''rvpnse-ios'']) w) ts [] []))
               (snd (create_framework b h (output_dir b @ [''rvpnse-ios''])
                  ''rVPNSE-Device.framework''
                  (fst (group_ios_targets b (mkdir_parents (output_dir b @ [''rvpnse-ios'']) w) ts [] []))
                  (mkdir_parents (output_dir b @ [''rvpnse-ios'']) w)))))"
  by (simp add: package_ios_bundle_cases Let_def)

lemma framework_binary_events_no_archive:
  "filter is_archive (framework_binary_events out g) = []"
  "filter is_cargo_build (framework_binary_events out g) = []"
  by (simp_all add: framework_binary_events_def is_archive_def is_cargo_build_def lipo_cmd_def)

lemma create_framework_no_archive:
  "\<exists>es. trace (snd (create_framework b h bundle_dir fw g w)) = trace w @ es \<and>
        filter is_archive es = [] \<and> filter is_cargo_build es = []"
  by (simp add: create_framework_trace framework_binary_events_no_archive is_archive_def
      is_cargo_build_def)

lemma package_ios_bundle_archives:
  "\<exists>es. trace (snd (package_ios_bundle b h ts w)) = trace w @ es \<and>
        filter is_cargo_build es = [] \<and>
        filter is_archive es =
          (if fst (package_ios_bundle b h ts w) = None then []
           else [MakeArchive
                   (with_suffix_empty (with_suffix_empty (output_dir b @ [''rvpnse-ios.tar.gz''])))
                   ''gztar'' (output_dir b @ [''rvpnse-ios''])])"
proof -
  define bundle_dir where "bundle_dir = output_dir b @ [''rvpnse-ios'']"
  define w1 where "w1 = mkdir_parents bundle_dir w"
  define dev where "dev = fst (group_ios_targets b w1 ts [] [])"
  define sim where "sim = snd (group_ios_targets b w1 ts [] [])"
  define dstep where "dstep = create_framework b h bundle_dir ''rVPNSE-Device.framework'' dev w1"
  define sstep where
    "sstep = create_framework b h bundle_dir ''rVPNSE-Simulator.framework'' sim (snd dstep)"
  have t1: "trace w1 = trace w @ [Mkdir bundle_dir]"
    by (simp add: w1_def trace_ops)
  obtain es2 where t2: "trace (snd dstep) = trace w1 @ es2"
    and p2: "filter is_archive es2 = []" "filter is_cargo_build es2 = []"
    unfolding dstep_def using create_framework_no_archive by blast
  obtain es3 where t3: "trace (snd sstep) = trace (snd dstep) @ es3"
    and p3: "filter is_archive es3 = []" "filter is_cargo_build es3 = []"
    unfolding sstep_def using create_framework_no_archive by blast
  obtain es4 where t4: "trace (rmtree bundle_dir
                 (make_archive
                   (with_suffix_empty (with_suffix_empty (output_dir b @ [''rvpnse-ios.tar.gz''])))
                   ''gztar'' bundle_dir
                   (chmod (bundle_dir @ [''install.sh''])
                     (write_text (bundle_dir @ [''install.sh''])
                       (copy_if_exists (project_root b @ [''README.md'']) bundle_dir
                         (add_framework_metadata b bundle_dir ''rVPNSE-Simulator.framework''
                           (add_framework_metadata b bundle_dir ''rVPNSE-Device.framework''
                             (snd sstep)))))))) = trace (snd sstep) @ es4"
    and p4: "filter is_archive es4 =
        [MakeArchive
           (with_suffix_empty (with_suffix_empty (output_dir b @ [''rvpnse-ios.tar.gz''])))
           ''gztar'' bundle_dir]" "filter is_cargo_build es4 = []"
    using ios_finish_trace [of bundle_dir _ _ "project_root b"] by blast
  have m: "\<not> is_archive (Mkdir bundle_dir)" "\<not> is_cargo_build (Mkdir bundle_dir)"
    by (simp_all add: is_archive_def is_cargo_build_def)
  show ?thesis
    unfolding package_ios_bundle_cases Let_def
    unfolding bundle_dir_def [symmetric] w1_def [symmetric] dev_def [symmetric]
      sim_def [symmetric] dstep_def [symmetric] sstep_def [symmetric]
    using t1 t2 t3 t4 p2 p3 p4 m
    by auto
qed

lemma package_ios_bundle_no_archive:
  assumes "fst (package_ios_bundle b h ts w) = None"
  shows "filter is_archive (events_since w (snd (package_ios_bundle b h ts w))) = []"
proof -
  from package_ios_bundle_archives [of b h ts w] assms
  obtain es where "trace (snd (package_ios_bundle b h ts w)) = trace w @ es"
    and "filter is_archive es = []"
    by auto
  then show ?thesis by (simp add: events_since_def)
qed

text \<open>
  C4. \<open>package_ios_bundle\<close> splits the targets whose library exists into the device
  group, those with the triple \<^verbatim>\<open>aarch64-apple-ios\<close>, and the simulator group, all the
  others, each in the order of the request. The only events that put a binary into a
  framework are those of \<open>framework_binary_events\<close> for the device group, written to
  the device framework, followed, unless the device merge failed, by those for the
  simulator group, written to the simulator framework: one copy for a group of one, one
  \<^verbatim>\<open>lipo\<close> run over the paths of the group for a larger one. A merge fails exactly when
  \<^verbatim>\<open>lipo\<close> does not leave status 0; then the function returns None and writes no
  archive. So no framework gets a binary of the other group.
\<close>

theorem package_ios_bundle_groups:
  fixes b :: builder and h :: host and ts :: "Target list" and w :: world
  defines "bundle_dir \<equiv> output_dir b @ [''rvpnse-ios'']"
    and "w1 \<equiv> mkdir_parents (output_dir b @ [''rvpnse-ios'']) w"
    and "dev \<equiv> fst (group_ios_targets b (mkdir_parents (output_dir b @ [''rvpnse-ios'']) w) ts [] [])"
    and "sim \<equiv> snd (group_ios_targets b (mkdir_parents (output_dir b @ [''rvpnse-ios'']) w) ts [] [])"
  defines "dstep \<equiv> create_framework b h bundle_dir ''rVPNSE-Device.framework'' dev w1"
  defines "sstep \<equiv> create_framework b h bundle_dir ''rVPNSE-Simulator.framework'' sim (snd dstep)"
  shows
    "dev = map (\<lambda>t. (t, ios_lib_path b t))
       (filter (\<lambda>t. path_exists w1 (ios_lib_path b t) \<and> rust_target t = ''aarch64-apple-ios'') ts) \<and>
     sim = map (\<lambda>t. (t, ios_lib_path b t))
       (filter (\<lambda>t. path_exists w1 (ios_lib_path b t) \<and> rust_target t \<noteq> ''aarch64-apple-ios'') ts) \<and>
     filter writes_binary (events_since w (snd (package_ios_bundle b h ts w))) =
       framework_binary_events (bundle_dir @ [''rVPNSE-Device.framework'', ''rVPNSE'']) dev @
       (if fst dstep
        then framework_binary_events (bundle_dir @ [''rVPNSE-Simulator.framework'', ''rVPNSE'']) sim
        else []) \<and>
     fst dstep =
       (length dev \<le> 1 \<or>
        fst (exec h (lipo_cmd (bundle_dir @ [''rVPNSE-Device.framework'', ''rVPNSE'']) dev)
               (project_root b) (environ h)
               (fs (mkdir_parents (bundle_dir @ [''rVPNSE-Device.framework'']) w1))) = Exited 0) \<and>
     fst sstep =
       (length sim \<le> 1 \<or>
        fst (exec h (lipo_cmd (bundle_dir @ [''rVPNSE-Simulator.framework'', ''rVPNSE'']) sim)
               (project_root b) (environ h)
               (fs (mkdir_parents (bundle_dir @ [''rVPNSE-Simulator.framework'']) (snd dstep)))) =
        Exited 0) \<and>
     (fst (package_ios_bundle b h ts w) = None) =
       ((dev = [] \<and> sim = []) \<or> \<not> fst dstep \<or> \<not> fst sstep) \<and>
     (fst (package_ios_bundle b h ts w) = None \<longrightarrow>
        filter is_archive (events_since w (snd (package_ios_bundle b h ts w))) = [])"
  unfolding dstep_def sstep_def dev_def sim_def w1_def bundle_dir_def
  using package_ios_bundle_binary_events [of w b h ts] package_ios_bundle_result [of b h ts w]
    package_ios_bundle_no_archive [of b h ts w]
  by (simp add: group_ios_targets_acc create_framework_ok)

theorem package_ios_bundle_groups_witness:
  "fst (package_ios_bundle stub_builder (stub_host writing_exec)
          [ios_arm64, ios_x64_sim, ios_arm64_sim] ios_world) = None \<and>
   filter is_archive (events_since ios_world
     (snd (package_ios_bundle stub_builder (stub_host writing_exec)
             [ios_arm64, ios_x64_sim, ios_arm64_sim] ios_world))) = [] \<and>
   filter writes_binary (events_since ios_world
     (snd (package_ios_bundle stub_builder (stub_host writing_exec)
             [ios_arm64, ios_x64_sim, ios_arm64_sim] ios_world))) =
     [Copy2 [''proj'', ''target'', ''aarch64-apple-ios'', ''release'', ''librvpnse.dylib'']
        [''proj'', ''dist'', ''rvpnse-ios'', ''rVPNSE-Device.framework'', ''rVPNSE''],
      Exec [''lipo'', ''-create'', ''-output'',
            ''proj/dist/rvpnse-ios/rVPNSE-Simulator.framework/rVPNSE'',
            ''proj/target/x86_64-apple-ios/release/librvpnse.dylib'',
            ''proj/target/aarch64-apple-ios-sim/release/librvpnse.dylib'']]"
proof -
  have n: "fst (package_ios_bundle stub_builder (stub_host writing_exec)
      [ios_arm64, ios_x64_sim, ios_arm64_sim] ios_world) = None"
    by code_simp
  have e: "filter writes_binary (events_since ios_world
     (snd (package_ios_bundle stub_builder (stub_host writing_exec)
             [ios_arm64, ios_x64_sim, ios_arm64_sim] ios_world))) =
     [Copy2 [''proj'', ''target'', ''aarch64-apple-ios'', ''release'', ''librvpnse.dylib'']
        [''proj'', ''dist'', ''rvpnse-ios'', ''rVPNSE-Device.framework'', ''rVPNSE''],
      Exec [''lipo'', ''-create'', ''-output'',
            ''proj/dist/rvpnse-ios/rVPNSE-Simulator.framework/rVPNSE'',
            ''proj/target/x86_64-apple-ios/release/librvpnse.dylib'',
            ''proj/target/aarch64-apple-ios-sim/release/librvpnse.dylib'']]"
    by code_simp
  from package_ios_bundle_groups [of stub_builder ios_world
      "[ios_arm64, ios_x64_sim, ios_arm64_sim]" "stub_host writing_exec"] n
  have "filter is_archive (events_since ios_world
     (snd (package_ios_bundle stub_builder (stub_host writing_exec)
             [ios_arm64, ios_x64_sim, ios_arm64_sim] ios_world))) = []"
    by blast
  with n e show ?thesis by simp
qed

subsection \<open>One Android bundle, after the loop\<close>

lemma stem_zip: "n \<noteq> [] \<Longrightarrow> stem (n @ ''.zip'') = n"
  by (simp add: stem_def Let_def)

lemma stem_gz: "n \<noteq> [] \<Longrightarrow> stem (n @ ''.tar.gz'') = n @ ''.tar''"
  by (simp add: stem_def Let_def)

lemma stem_tar: "n \<noteq> [] \<Longrightarrow> stem (n @ ''.tar'') = n"
  by (simp add: stem_def Let_def)

lemma with_suffix_zip: "n \<noteq> [] \<Longrightarrow> with_suffix_empty (p @ [n @ ''.zip'']) = p @ [n]"
  by (cases p) (simp_all add: with_suffix_empty_def stem_zip butlast_append)

lemma with_suffix_tar_gz:
  "n \<noteq> [] \<Longrightarrow> with_suffix_empty (with_suffix_empty (p @ [n @ ''.tar.gz''])) = p @ [n]"
  by (cases p) (simp_all add: with_suffix_empty_def stem_gz stem_tar butlast_append)

lemma build_target_trace:
  "\<exists>es. trace (snd (build_target b h t w)) = trace w @ es \<and>
        filter is_archive es = [] \<and> filter (is_android_archive b) es = [] \<and>
        (\<forall>e \<in> set es. e = Rmtree (build_dir b @ [rust_target t]) \<or> e = Exec (cargo_build_cmd b t))"
  by (auto simp add: build_target_def clean_previous_build_def Let_def run_command_cargo
      trace_ops trace_emit is_archive_def is_android_archive_def split: sum.split)

lemma build_target_lib_exists:
  "fst (build_target b h t w) = Inr True \<Longrightarrow>
     path_exists (snd (build_target b h t w)) (lib_path_of b t)"
  by (auto simp add: build_target_def Let_def split: sum.splits prod.splits if_splits)

lemma package_target_trace:
  "\<exists>es. trace (snd (package_target b t w)) = trace w @ es \<and>
        filter is_cargo_build es = [] \<and>
        filter is_archive es =
          (if path_exists w (lib_path_of b t)
           then [MakeArchive (output_dir b @ [''rvpnse-'' @ name t])
                   (if platform t = WINDOWS then ''zip'' else ''gztar'')
                   (output_dir b @ [''rvpnse-'' @ name t])]
           else [])"
proof -
  have z: "with_suffix_empty (output_dir b @ [''rvpnse-'' @ name t @ ''.zip'']) =
      output_dir b @ [''rvpnse-'' @ name t]"
    using with_suffix_zip [of "''rvpnse-'' @ name t" "output_dir b"] by simp
  have g: "with_suffix_empty (with_suffix_empty (output_dir b @ [''rvpnse-'' @ name t @ ''.tar.gz''])) =
      output_dir b @ [''rvpnse-'' @ name t]"
    using with_suffix_tar_gz [of "''rvpnse-'' @ name t" "output_dir b"] by simp
  show ?thesis
    using z g
    by (simp add: package_target_def Let_def trace_ops copy_if_exists_trace
        is_archive_def is_cargo_build_def)
qed


lemma registry_target:
  assumes "map_of TARGETS n = Some t"
  shows "name t = n" and "name t \<noteq> ''android''"
    and "platform t = ANDROID \<Longrightarrow> android_arch t \<noteq> None"
proof -
  from assms have "(n, t) \<in> set TARGETS" by (rule map_of_SomeD)
  then show "name t = n" and "name t \<noteq> ''android''"
    and "platform t = ANDROID \<Longrightarrow> android_arch t \<noteq> None"
    by (auto simp add: TARGETS_def mk_target_def)
qed

lemma android_archive_is_archive:
  "filter (is_android_archive b) es = filter (is_android_archive b) (filter is_archive es)"
proof -
  have "\<And>e. is_android_archive b e \<Longrightarrow> is_archive e"
    by (simp add: is_android_archive_def is_archive_def split: event.splits)
  then show ?thesis by (auto simp add: filter_filter intro: filter_cong)
qed

lemma package_target_no_android_archive:
  assumes "name t \<noteq> ''android''"
  shows "\<exists>es. trace (snd (package_target b t w)) = trace w @ es \<and>
        filter (is_android_archive b) es = [] \<and> filter is_cargo_build es = []"
proof -
  from package_target_trace [of b t w] obtain es
    where t: "trace (snd (package_target b t w)) = trace w @ es"
      and c: "filter is_cargo_build es = []"
      and a: "filter is_archive es =
          (if path_exists w (lib_path_of b t)
           then [MakeArchive (output_dir b @ [''rvpnse-'' @ name t])
                   (if platform t = WINDOWS then ''zip'' else ''gztar'')
                   (output_dir b @ [''rvpnse-'' @ name t])]
           else [])"
    by blast
  have "filter (is_android_archive b) (filter is_archive es) = []"
    using assms by (simp add: a is_android_archive_def)
  then have "filter (is_android_archive b) es = []"
    using android_archive_is_archive [of b es] by simp
  with t c show ?thesis by blast
qed

lemma build_loop_trace:
  "\<exists>es. trace (snd (build_loop b h ns st w)) = trace w @ es \<and>
        filter (is_android_archive b) es = []"
proof (induction ns arbitrary: st w)
  case Nil
  then show ?case by simp
next
  case (Cons n ns)
  show ?case
  proof (cases "map_of TARGETS n")
    case None
    then show ?thesis by simp
  next
    case (Some t)
    obtain r w1 where bt: "build_target b h t w = (r, w1)"
      by (cases "build_target b h t w")
    from build_target_trace [of b h t w] bt obtain es1
      where t1: "trace w1 = trace w @ es1" and a1: "filter (is_android_archive b) es1 = []"
      by auto
    show ?thesis
    proof (cases r)
      case (Inl e)
      with Some bt t1 a1 show ?thesis by simp
    next
      case (Inr success)
      define st1 where "st1 = st\<lparr>results := AList.update n success (results st)\<rparr>"
      define st2 where "st2 =
          (if success \<and> platform t = ANDROID
           then st1\<lparr>android_targets := android_targets st1 @ [t]\<rparr>
           else if success \<and> platform t = IOS
           then st1\<lparr>ios_targets := ios_targets st1 @ [t]\<rparr>
           else st1)"
      define w2 where "w2 =
          (if success \<and> platform t \<noteq> ANDROID \<and> platform t \<noteq> IOS
           then snd (package_target b t w1) else w1)"
      have step: "build_loop b h (n # ns) st w = build_loop b h ns st2 w2"
        using Some bt Inr by (simp add: st1_def st2_def w2_def Let_def)
      from registry_target(2) [OF Some] package_target_no_android_archive [of t b w1]
      obtain es2 where t2: "trace w2 = trace w1 @ es2"
        and a2: "filter (is_android_archive b) es2 = []"
        by (cases "success \<and> platform t \<noteq> ANDROID \<and> platform t \<noteq> IOS")
          (auto simp add: w2_def)
      from Cons.IH [of st2 w2] obtain es3
        where t3: "trace (snd (build_loop b h ns st2 w2)) = trace w2 @ es3"
          and a3: "filter (is_android_archive b) es3 = []"
        by blast
      from step t1 t2 t3 a1 a2 a3 show ?thesis by simp
    qed
  qed
qed


lemma copy_android_libs_trace:
  "\<exists>es. trace (snd (copy_android_libs b jni ts w)) = trace w @ es \<and>
        filter is_archive es = [] \<and> filter is_cargo_build es = []"
proof (induction ts arbitrary: w)
  case Nil
  then show ?case by simp
next
  case (Cons t ts)
  let ?lib = "android_lib_path b t"
  show ?case
  proof (cases "path_exists w ?lib")
    case False
    with Cons.IH [of w] show ?thesis by simp
  next
    case True
    show ?thesis
    proof (cases "android_arch t")
      case None
      with True show ?thesis by simp
    next
      case (Some a)
      let ?w2 = "copy2 ?lib (jni @ [a, ''librvpnse.so'']) (mkdir (jni @ [a]) w)"
      from Cons.IH [of ?w2] obtain es
        where t: "trace (snd (copy_android_libs b jni ts ?w2)) = trace ?w2 @ es"
          and p: "filter is_archive es = []" "filter is_cargo_build es = []"
        by blast
      have k: "\<And>p. \<not> is_archive (Mkdir p)" "\<And>p q. \<not> is_archive (Copy2 p q)"
        "\<And>p. \<not> is_cargo_build (Mkdir p)" "\<And>p q. \<not> is_cargo_build (Copy2 p q)"
        by (simp_all add: is_archive_def is_cargo_build_def)
      from True Some t p k show ?thesis
        by (simp add: Let_def trace_ops)
    qed
  qed
qed

lemma package_android_bundle_trace:
  "\<exists>es. trace (snd (package_android_bundle b ts w)) = trace w @ es \<and>
        filter is_cargo_build es = [] \<and> length (filter (is_android_archive b) es) \<le> 1"
proof -
  let ?bdir = "output_dir b @ [''rvpnse-android'']"
  let ?w1 = "mkdir_parents (?bdir @ [''jniLibs'']) w"
  obtain r w2 where c: "copy_android_libs b (?bdir @ [''jniLibs'']) ts ?w1 = (r, w2)"
    by (cases "copy_android_libs b (?bdir @ [''jniLibs'']) ts ?w1")
  from copy_android_libs_trace [of b "?bdir @ [''jniLibs'']" ts ?w1] c obtain es
    where t: "trace w2 = trace ?w1 @ es"
      and p: "filter is_archive es = []" "filter is_cargo_build es = []"
    by auto
  from p(1) have a: "filter (is_android_archive b) es = []"
    using android_archive_is_archive [of b es] by simp
  show ?thesis
  proof (cases r)
    case (Inl e)
    with c t p a show ?thesis
      by (simp add: package_android_bundle_def Let_def trace_ops is_cargo_build_def
          is_android_archive_def)
  next
    case (Inr u)
    with c t p a show ?thesis
      by (simp add: package_android_bundle_def Let_def trace_ops copy_if_exists_trace
          is_cargo_build_def is_android_archive_def)
  qed
qed

lemma package_ios_bundle_no_android_archive:
  "\<exists>es. trace (snd (package_ios_bundle b h ts w)) = trace w @ es \<and>
        filter is_cargo_build es = [] \<and> filter (is_android_archive b) es = []"
proof -
  from package_ios_bundle_archives [of b h ts w] obtain es
    where t: "trace (snd (package_ios_bundle b h ts w)) = trace w @ es"
      and c: "filter is_cargo_build es = []"
      and a: "filter is_archive es =
          (if fst (package_ios_bundle b h ts w) = None then []
           else [MakeArchive
                   (with_suffix_empty (with_suffix_empty (output_dir b @ [''rvpnse-ios.tar.gz''])))
                   ''gztar'' (output_dir b @ [''rvpnse-ios''])])"
    by blast
  have "with_suffix_empty (with_suffix_empty (output_dir b @ [''rvpnse-ios.tar.gz''])) =
      output_dir b @ [''rvpnse-ios'']"
    using with_suffix_tar_gz [of "''rvpnse-ios''" "output_dir b"] by simp
  then have "filter (is_android_archive b) (filter is_archive es) = []"
    by (simp add: a is_android_archive_def)
  then have "filter (is_android_archive b) es = []"
    using android_archive_is_archive [of b es] by simp
  with t c show ?thesis by blast
qed

lemma setup_and_clean_trace:
  "\<exists>es. trace (snd (setup_rust_environment b h w)) = trace w @ es \<and>
        filter (is_android_archive b) es = []"
  "\<exists>es. trace (clean_output_dir b w) = trace w @ es \<and> filter (is_android_archive b) es = []"
  by (simp_all add: setup_rust_environment_def add_rust_targets_trace clean_output_dir_trace
      is_android_archive_def filter_empty_conv)

lemma build_events_split:
  "\<exists>pre post. events_since w (snd (build b h target_names w)) = pre @ post \<and>
        filter (is_android_archive b) pre = [] \<and>
        filter is_cargo_build post = [] \<and>
        length (filter (is_android_archive b) post) \<le> 1"
proof -
  obtain ok w1 where s: "setup_rust_environment b h w = (ok, w1)"
    by (cases "setup_rust_environment b h w")
  from setup_and_clean_trace(1) [of b h w] s obtain es0
    where t0: "trace w1 = trace w @ es0" and a0: "filter (is_android_archive b) es0 = []"
    by auto
  define w3 where "w3 = clean_output_dir b w1"
  from setup_and_clean_trace(2) [of b w1] obtain ec
    where tc: "trace w3 = trace w1 @ ec" and ac: "filter (is_android_archive b) ec = []"
    unfolding w3_def by blast
  obtain r w4 where l: "build_loop b h target_names
      \<lparr>results = [], android_targets = [], ios_targets = []\<rparr> w3 = (r, w4)"
    by (cases "build_loop b h target_names
      \<lparr>results = [], android_targets = [], ios_targets = []\<rparr> w3")
  from build_loop_trace
    [of b h target_names "\<lparr>results = [], android_targets = [], ios_targets = []\<rparr>" w3] l
  obtain el
    where tl: "trace w4 = trace w3 @ el" and al: "filter (is_android_archive b) el = []"
    by auto
  have done_early: "\<exists>pre post. events_since w w' = pre @ post \<and>
        filter (is_android_archive b) pre = [] \<and>
        filter is_cargo_build post = [] \<and>
        length (filter (is_android_archive b) post) \<le> 1"
    if "w' = w1 \<or> w' = w3 \<or> w' = w4" for w'
  proof -
    from that t0 tc tl obtain es where "trace w' = trace w @ es"
      and "filter (is_android_archive b) es = []"
      using a0 ac al by auto
    then have "events_since w w' = es @ [] \<and> filter (is_android_archive b) es = [] \<and>
        filter is_cargo_build [] = [] \<and> length (filter (is_android_archive b) []) \<le> 1"
      by (simp add: events_since_def)
    then show ?thesis by blast
  qed
  show ?thesis
  proof (cases "\<not> ok \<or> invalid_targets_of target_names \<noteq> []")
    case True
    then have "snd (build b h target_names w) = w1 \<or> snd (build b h target_names w) = w3"
      using s by (auto simp add: build_def Let_def w3_def)
    then show ?thesis using done_early by blast
  next
    case False
    show ?thesis
    proof (cases r)
      case (Inl e)
      with False s l have "snd (build b h target_names w) = w4"
        by (simp add: build_def Let_def w3_def)
      then show ?thesis using done_early by simp
    next
      case (Inr st)
      obtain ra w5 where pa: "(if android_targets st \<noteq> []
          then package_android_bundle b (android_targets st) w4
          else (Inr None, w4)) = (ra, w5)"
        by (cases "if android_targets st \<noteq> []
          then package_android_bundle b (android_targets st) w4
          else (Inr None, w4)")
      from package_android_bundle_trace [of b "android_targets st" w4] pa obtain ea
        where ta: "trace w5 = trace w4 @ ea" and ca: "filter is_cargo_build ea = []"
          and aa: "length (filter (is_android_archive b) ea) \<le> 1"
        by (cases "android_targets st \<noteq> []") auto
      define w6 where "w6 =
          (if ios_targets st \<noteq> [] then snd (package_ios_bundle b h (ios_targets st) w5) else w5)"
      from package_ios_bundle_no_android_archive [of b h "ios_targets st" w5] obtain ei
        where ti: "trace w6 = trace w5 @ ei" and ci: "filter is_cargo_build ei = []"
          and ai: "filter (is_android_archive b) ei = []"
        by (cases "ios_targets st \<noteq> []") (auto simp add: w6_def)
      have "snd (build b h target_names w) = w5 \<or> snd (build b h target_names w) = w6"
        using False s l Inr pa
        by (cases ra) (simp_all add: build_def Let_def w3_def w6_def)
      then obtain ep where tp: "trace (snd (build b h target_names w)) = trace w4 @ ep"
        and cp: "filter is_cargo_build ep = []"
        and ap: "length (filter (is_android_archive b) ep) \<le> 1"
        using ta ti ca ci aa ai by auto
      from tp t0 tc tl have "events_since w (snd (build b h target_names w)) = (es0 @ ec @ el) @ ep"
        by (simp add: events_since_def)
      moreover have "filter (is_android_archive b) (es0 @ ec @ el) = []"
        using a0 ac al by simp
      ultimately show ?thesis using cp ap by blast
    qed
  qed
qed


lemma build_loop_cons:
  "build_loop b h (n # rest) st w =
     (case build_loop b h [n] st w of
        (Inl e, w') \<Rightarrow> (Inl e, w')
      | (Inr st', w') \<Rightarrow> build_loop b h rest st' w')"
  by (simp add: Let_def split: option.split prod.split sum.split)

lemma build_loop_step_mobile:
  assumes "map_of TARGETS n = Some t" and "platform t = ANDROID \<or> platform t = IOS"
  shows "filter is_archive (events_since w (snd (build_loop b h [n] st w))) = []"
proof -
  obtain r w1 where bt: "build_target b h t w = (r, w1)"
    by (cases "build_target b h t w")
  from build_target_trace [of b h t w] bt obtain es
    where t: "trace w1 = trace w @ es" and a: "filter is_archive es = []"
    by auto
  have "snd (build_loop b h [n] st w) = w1"
    using assms bt by (cases r) (auto simp add: Let_def)
  with t a show ?thesis by (simp add: events_since_def)
qed

lemma build_loop_step_android:
  assumes "map_of TARGETS n = Some t" and "platform t = ANDROID"
    and "fst (build_loop b h [n] st w) = Inr st'"
  shows "android_targets st' =
     android_targets st @ (if fst (build_target b h t w) = Inr True then [t] else [])"
proof -
  obtain r w1 where bt: "build_target b h t w = (r, w1)"
    by (cases "build_target b h t w")
  show ?thesis
    using assms bt by (cases r) (auto simp add: Let_def split: if_splits)
qed

lemma build_loop_step_desktop:
  assumes "map_of TARGETS n = Some t" and "platform t \<noteq> ANDROID" and "platform t \<noteq> IOS"
    and "fst (build_target b h t w) = Inr True"
  shows "filter is_archive (events_since w (snd (build_loop b h [n] st w))) =
     [MakeArchive (output_dir b @ [''rvpnse-'' @ n])
        (if platform t = WINDOWS then ''zip'' else ''gztar'')
        (output_dir b @ [''rvpnse-'' @ n])]"
proof -
  obtain w1 where bt: "build_target b h t w = (Inr True, w1)"
    using assms(4) by (cases "build_target b h t w") simp
  from build_target_trace [of b h t w] bt obtain es
    where t: "trace w1 = trace w @ es" and a: "filter is_archive es = []"
    by auto
  from build_target_lib_exists [OF assms(4)] bt have l: "path_exists w1 (lib_path_of b t)"
    by simp
  from package_target_trace [of b t w1] l obtain es2
    where t2: "trace (snd (package_target b t w1)) = trace w1 @ es2"
      and a2: "filter is_archive es2 =
          [MakeArchive (output_dir b @ [''rvpnse-'' @ name t])
             (if platform t = WINDOWS then ''zip'' else ''gztar'')
             (output_dir b @ [''rvpnse-'' @ name t])]"
    by auto
  have "snd (build_loop b h [n] st w) = snd (package_target b t w1)"
    using assms bt by (simp add: Let_def)
  with t t2 a a2 registry_target(1) [OF assms(1)] show ?thesis
    by (simp add: events_since_def)
qed

lemma path_exists_mono:
  "path_exists w p \<Longrightarrow> path_exists (mkdir q w) p"
  "path_exists w p \<Longrightarrow> path_exists (mkdir_parents q w) p"
  "path_exists w p \<Longrightarrow> path_exists (copy2 src dst w) p"
  by (simp_all add: path_exists_def fs_ops)

lemma copy_android_libs_ok:
  "\<forall>t \<in> set ts. android_arch t \<noteq> None \<Longrightarrow> fst (copy_android_libs b jni ts w) = Inr ()"
  by (induction ts arbitrary: w) (auto simp add: Let_def)

lemma copy_android_libs_copies:
  assumes "\<forall>t \<in> set ts. android_arch t \<noteq> None"
    and "t \<in> set ts" and "path_exists w (android_lib_path b t)"
  shows "Copy2 (android_lib_path b t) (jni @ [the (android_arch t), ''librvpnse.so''])
     \<in> set (events_since w (snd (copy_android_libs b jni ts w)))"
  using assms
proof (induction ts arbitrary: w)
  case Nil
  then show ?case by simp
next
  case (Cons u us)
  from Cons.prems(1) obtain a where a: "android_arch u = Some a" by auto
  define w2 where "w2 =
      (if path_exists w (android_lib_path b u)
       then copy2 (android_lib_path b u) (jni @ [a, ''librvpnse.so'']) (mkdir (jni @ [a]) w)
       else w)"
  have step: "copy_android_libs b jni (u # us) w = copy_android_libs b jni us w2"
    by (simp add: a w2_def Let_def)
  have t2: "trace w2 = trace w @
      (if path_exists w (android_lib_path b u)
       then [Mkdir (jni @ [a]), Copy2 (android_lib_path b u) (jni @ [a, ''librvpnse.so''])]
       else [])"
    by (simp add: w2_def trace_ops)
  from copy_android_libs_trace [of b jni us w2] obtain es
    where t3: "trace (snd (copy_android_libs b jni us w2)) = trace w2 @ es"
    by blast
  have ev: "events_since w (snd (copy_android_libs b jni (u # us) w)) =
      (if path_exists w (android_lib_path b u)
       then [Mkdir (jni @ [a]), Copy2 (android_lib_path b u) (jni @ [a, ''librvpnse.so''])]
       else []) @ es"
    unfolding step using t2 t3 by (simp add: events_since_def)
  have ev2: "events_since w2 (snd (copy_android_libs b jni us w2)) = es"
    using t3 by (simp add: events_since_def)
  show ?case
  proof (cases "t = u")
    case True
    with Cons.prems(3) a show ?thesis unfolding ev by simp
  next
    case False
    with Cons.prems(2) have m: "t \<in> set us" by simp
    from Cons.prems(3) have "path_exists w2 (android_lib_path b t)"
      by (simp add: w2_def path_exists_mono)
    with Cons.IH [of w2] Cons.prems(1) m
    have "Copy2 (android_lib_path b t) (jni @ [the (android_arch t), ''librvpnse.so'']) \<in> set es"
      by (simp add: ev2)
    then show ?thesis unfolding ev by simp
  qed
qed

lemma package_android_bundle_packs:
  assumes "\<forall>t \<in> set ts. android_arch t \<noteq> None"
  shows "fst (package_android_bundle b ts w) = Inr (Some (output_dir b @ [''rvpnse-android.tar.gz'']))"
    and "filter (is_android_archive b) (events_since w (snd (package_android_bundle b ts w))) =
       [MakeArchive (output_dir b @ [''rvpnse-android'']) ''gztar''
          (output_dir b @ [''rvpnse-android''])]"
    and "\<forall>t \<in> set ts. path_exists w (android_lib_path b t) \<longrightarrow>
       Copy2 (android_lib_path b t)
         (output_dir b @ [''rvpnse-android'', ''jniLibs'', the (android_arch t), ''librvpnse.so''])
       \<in> set (events_since w (snd (package_android_bundle b ts w)))"
proof -
  define bdir where "bdir = output_dir b @ [''rvpnse-android'']"
  define jni where "jni = output_dir b @ [''rvpnse-android'', ''jniLibs'']"
  define w1 where "w1 = mkdir_parents jni w"
  obtain r w2 where c: "copy_android_libs b jni ts w1 = (r, w2)"
    by (cases "copy_android_libs b jni ts w1")
  from copy_android_libs_ok [OF assms, of b jni w1] c have r: "r = Inr ()" by simp
  from copy_android_libs_trace [of b jni ts w1] c obtain es
    where t: "trace w2 = trace w1 @ es"
      and p: "filter is_archive es = []"
    by auto
  from p have a: "filter (is_android_archive b) es = []"
    using android_archive_is_archive [of b es] by simp
  have t1: "trace w1 = trace w @ [Mkdir jni]"
    by (simp add: w1_def trace_ops)
  have g: "with_suffix_empty (with_suffix_empty (output_dir b @ [''rvpnse-android.tar.gz''])) = bdir"
    using with_suffix_tar_gz [of "''rvpnse-android''" "output_dir b"] by (simp add: bdir_def)
  have unf: "package_android_bundle b ts w =
      (Inr (Some (output_dir b @ [''rvpnse-android.tar.gz''])),
       rmtree bdir
         (make_archive bdir ''gztar'' bdir
           (chmod (bdir @ [''install.sh''])
             (write_text (bdir @ [''install.sh''])
               (copy_if_exists (project_root b @ [''README.md'']) bdir
                 (copy_if_exists (project_root b @ [''include'', ''rvpnse.h'']) bdir w2))))))"
    using c r g
    by (simp add: package_android_bundle_def Let_def bdir_def jni_def w1_def)
  show "fst (package_android_bundle b ts w) = Inr (Some (output_dir b @ [''rvpnse-android.tar.gz'']))"
    by (simp add: unf)
  have k: "\<And>p q. \<not> is_android_archive b (Copy2 p q)" "\<And>p. \<not> is_android_archive b (WriteText p)"
    "\<And>p. \<not> is_android_archive b (Chmod p)" "\<And>p. \<not> is_android_archive b (Rmtree p)"
    "\<And>p. \<not> is_android_archive b (Mkdir p)"
    "is_android_archive b (MakeArchive bdir ''gztar'' bdir)"
    by (simp_all add: is_android_archive_def bdir_def)
  obtain es' where tr: "trace (snd (package_android_bundle b ts w)) = trace w2 @ es'"
    and a': "filter (is_android_archive b) es' = [MakeArchive bdir ''gztar'' bdir]"
    using k by (simp add: unf trace_ops copy_if_exists_trace)
  have ev: "events_since w (snd (package_android_bundle b ts w)) = Mkdir jni # es @ es'"
    using tr t t1 by (simp add: events_since_def)
  show "filter (is_android_archive b) (events_since w (snd (package_android_bundle b ts w))) =
       [MakeArchive (output_dir b @ [''rvpnse-android'']) ''gztar''
          (output_dir b @ [''rvpnse-android''])]"
    using a a' k by (simp add: ev bdir_def)
  have es: "events_since w1 (snd (copy_android_libs b jni ts w1)) = es"
    using t c by (simp add: events_since_def)
  show "\<forall>t \<in> set ts. path_exists w (android_lib_path b t) \<longrightarrow>
       Copy2 (android_lib_path b t)
         (output_dir b @ [''rvpnse-android'', ''jniLibs'', the (android_arch t), ''librvpnse.so''])
       \<in> set (events_since w (snd (package_android_bundle b ts w)))"
  proof (intro ballI impI)
    fix t assume m: "t \<in> set ts" and e: "path_exists w (android_lib_path b t)"
    from e have "path_exists w1 (android_lib_path b t)"
      unfolding w1_def by (rule path_exists_mono)
    from copy_android_libs_copies [OF assms m this, of jni]
    have "Copy2 (android_lib_path b t) (jni @ [the (android_arch t), ''librvpnse.so'']) \<in> set es"
      by (simp only: es)
    then show "Copy2 (android_lib_path b t)
         (output_dir b @ [''rvpnse-android'', ''jniLibs'', the (android_arch t), ''librvpnse.so''])
       \<in> set (events_since w (snd (package_android_bundle b ts w)))"
      by (simp add: ev jni_def)
  qed
qed

lemma build_loop_step:
  assumes "map_of TARGETS n = Some t" and "build_target b h t w = (Inr success, w1)"
  shows "build_loop b h (n # ns) st w =
     build_loop b h ns
       (if success \<and> platform t = ANDROID
        then st\<lparr>results := AList.update n success (results st),
                 android_targets := android_targets st @ [t]\<rparr>
        else if success \<and> platform t = IOS
        then st\<lparr>results := AList.update n success (results st),
                 ios_targets := ios_targets st @ [t]\<rparr>
        else st\<lparr>results := AList.update n success (results st)\<rparr>)
       (if success \<and> platform t \<noteq> ANDROID \<and> platform t \<noteq> IOS
        then snd (package_target b t w1) else w1)"
  using assms by (simp add: Let_def)

lemma build_loop_Inr:
  assumes "fst (build_loop b h (n # ns) st w) = Inr st'"
  obtains t success w1 where "map_of TARGETS n = Some t"
    and "build_target b h t w = (Inr success, w1)"
proof (cases "map_of TARGETS n")
  case None
  with assms show ?thesis by simp
next
  case (Some t)
  obtain r w1 where bt: "build_target b h t w = (r, w1)"
    by (cases "build_target b h t w")
  show ?thesis
  proof (cases r)
    case (Inl e)
    with assms Some bt show ?thesis by simp
  next
    case (Inr success)
    with Some bt that show ?thesis by blast
  qed
qed

lemma build_loop_android_arch:
  assumes "fst (build_loop b h ns st w) = Inr st'"
    and "\<forall>t \<in> set (android_targets st). android_arch t \<noteq> None"
  shows "\<forall>t \<in> set (android_targets st'). android_arch t \<noteq> None"
  using assms
proof (induction ns arbitrary: st w)
  case Nil
  then show ?case by simp
next
  case (Cons n ns)
  from Cons.prems(1) obtain t success w1 where m: "map_of TARGETS n = Some t"
    and bt: "build_target b h t w = (Inr success, w1)"
    by (rule build_loop_Inr)
  note step = build_loop_step [OF m bt, of ns st]
  show ?case
  proof (rule Cons.IH)
    show "fst (build_loop b h ns
       (if success \<and> platform t = ANDROID
        then st\<lparr>results := AList.update n success (results st),
                 android_targets := android_targets st @ [t]\<rparr>
        else if success \<and> platform t = IOS
        then st\<lparr>results := AList.update n success (results st),
                 ios_targets := ios_targets st @ [t]\<rparr>
        else st\<lparr>results := AList.update n success (results st)\<rparr>)
       (if success \<and> platform t \<noteq> ANDROID \<and> platform t \<noteq> IOS
        then snd (package_target b t w1) else w1)) = Inr st'"
      using Cons.prems(1) unfolding step .
    show "\<forall>u \<in> set (android_targets
       (if success \<and> platform t = ANDROID
        then st\<lparr>results := AList.update n success (results st),
                 android_targets := android_targets st @ [t]\<rparr>
        else if success \<and> platform t = IOS
        then st\<lparr>results := AList.update n success (results st),
                 ios_targets := ios_targets st @ [t]\<rparr>
        else st\<lparr>results := AList.update n success (results st)\<rparr>)). android_arch u \<noteq> None"
      using Cons.prems(2) registry_target(3) [OF m] by auto
  qed
qed

lemma build_loop_accumulates:
  assumes "fst (build_loop b h ns st w) = Inr st'" and "distinct ns"
  shows "android_targets st' =
       android_targets st @
       map (\<lambda>n. the (map_of TARGETS n))
         (filter (\<lambda>n. platform (the (map_of TARGETS n)) = ANDROID \<and>
                     map_of (results st') n = Some True) ns) \<and>
     (\<forall>m. m \<notin> set ns \<longrightarrow> map_of (results st') m = map_of (results st) m)"
  using assms
proof (induction ns arbitrary: st w)
  case Nil
  then show ?case by simp
next
  case (Cons n ns)
  from Cons.prems(1) obtain t success w1 where m: "map_of TARGETS n = Some t"
    and bt: "build_target b h t w = (Inr success, w1)"
    by (rule build_loop_Inr)
  define st2 where "st2 =
       (if success \<and> platform t = ANDROID
        then st\<lparr>results := AList.update n success (results st),
                 android_targets := android_targets st @ [t]\<rparr>
        else if success \<and> platform t = IOS
        then st\<lparr>results := AList.update n success (results st),
                 ios_targets := ios_targets st @ [t]\<rparr>
        else st\<lparr>results := AList.update n success (results st)\<rparr>)"
  define w2 where "w2 =
       (if success \<and> platform t \<noteq> ANDROID \<and> platform t \<noteq> IOS
        then snd (package_target b t w1) else w1)"
  have step: "build_loop b h (n # ns) st w = build_loop b h ns st2 w2"
    unfolding st2_def w2_def by (rule build_loop_step [OF m bt])
  from Cons.prems(1) have l: "fst (build_loop b h ns st2 w2) = Inr st'"
    unfolding step .
  from Cons.prems(2) have d: "distinct ns" and nn: "n \<notin> set ns" by simp_all
  from Cons.IH [OF l d]
  have acc: "android_targets st' =
       android_targets st2 @
       map (\<lambda>n. the (map_of TARGETS n))
         (filter (\<lambda>n. platform (the (map_of TARGETS n)) = ANDROID \<and>
                     map_of (results st') n = Some True) ns)"
    and keep: "\<forall>m. m \<notin> set ns \<longrightarrow> map_of (results st') m = map_of (results st2) m"
    by blast+
  have r2: "map_of (results st2) = (map_of (results st))(n \<mapsto> success)"
    by (simp add: st2_def update_conv')
  from keep nn r2 have rn: "map_of (results st') n = Some success" by simp
  have a2: "android_targets st2 =
      android_targets st @ (if success \<and> platform t = ANDROID then [t] else [])"
    by (simp add: st2_def)
  have "android_targets st' =
       android_targets st @
       map (\<lambda>n. the (map_of TARGETS n))
         (filter (\<lambda>n. platform (the (map_of TARGETS n)) = ANDROID \<and>
                     map_of (results st') n = Some True) (n # ns))"
    using acc a2 rn m by auto
  moreover have "\<forall>m. m \<notin> set (n # ns) \<longrightarrow> map_of (results st') m = map_of (results st) m"
    using keep r2 by simp
  ultimately show ?case by blast
qed

lemma build_packages_accumulated:
  assumes cargo: "which h ''cargo'' \<noteq> None"
    and valid: "\<forall>n \<in> set target_names. map_of TARGETS n \<noteq> None"
    and loop: "build_loop b h target_names
        \<lparr>results = [], android_targets = [], ios_targets = []\<rparr>
        (clean_output_dir b (snd (setup_rust_environment b h w))) = (Inr st, w4)"
  shows "build b h target_names w =
       (Inr (results st),
        (let w5 = (if android_targets st \<noteq> []
                   then snd (package_android_bundle b (android_targets st) w4) else w4)
         in if ios_targets st \<noteq> []
            then snd (package_ios_bundle b h (ios_targets st) w5) else w5))"
    and "filter (is_android_archive b) (events_since w (snd (build b h target_names w))) =
       (if android_targets st = [] then []
        else [MakeArchive (output_dir b @ [''rvpnse-android'']) ''gztar''
                (output_dir b @ [''rvpnse-android''])])"
    and "\<forall>t \<in> set (android_targets st). path_exists w4 (android_lib_path b t) \<longrightarrow>
       Copy2 (android_lib_path b t)
         (output_dir b @ [''rvpnse-android'', ''jniLibs'', the (android_arch t), ''librvpnse.so''])
       \<in> set (events_since w4 (snd (build b h target_names w)))"
proof -
  define w1 where "w1 = snd (setup_rust_environment b h w)"
  define w3 where "w3 = clean_output_dir b w1"
  define w5 where "w5 =
      (if android_targets st \<noteq> []
       then snd (package_android_bundle b (android_targets st) w4) else w4)"
  define w6 where "w6 =
      (if ios_targets st \<noteq> [] then snd (package_ios_bundle b h (ios_targets st) w5) else w5)"
  from cargo have s: "setup_rust_environment b h w = (True, w1)"
    by (simp add: setup_rust_environment_def w1_def del: not_None_eq)
  from valid have v: "invalid_targets_of target_names = []"
    by (simp add: invalid_targets_of_def filter_empty_conv)
  from loop have fl: "fst (build_loop b h target_names
        \<lparr>results = [], android_targets = [], ios_targets = []\<rparr> w3) = Inr st"
    by (simp add: w3_def w1_def)
  have arch: "\<forall>t \<in> set (android_targets st). android_arch t \<noteq> None"
    using build_loop_android_arch [OF fl] by simp
  note packs = package_android_bundle_packs [OF arch, where b = b and w = w4]
  have pa: "(if android_targets st \<noteq> []
        then package_android_bundle b (android_targets st) w4
        else (Inr None, w4)) =
      (Inr (if android_targets st \<noteq> []
            then Some (output_dir b @ [''rvpnse-android.tar.gz'']) else None), w5)"
    using packs(1) by (simp add: w5_def prod_eq_iff)
  from loop have loop': "build_loop b h target_names
        \<lparr>results = [], android_targets = [], ios_targets = []\<rparr> w3 = (Inr st, w4)"
    by (simp add: w3_def w1_def)
  have b6: "build b h target_names w = (Inr (results st), w6)"
    unfolding build_def s using v loop' pa
    by (simp add: Let_def w3_def [symmetric] w6_def)
  then show "build b h target_names w =
       (Inr (results st),
        (let w5 = (if android_targets st \<noteq> []
                   then snd (package_android_bundle b (android_targets st) w4) else w4)
         in if ios_targets st \<noteq> []
            then snd (package_ios_bundle b h (ios_targets st) w5) else w5))"
    by (simp add: Let_def w6_def w5_def)
  from b6 have fin: "snd (build b h target_names w) = w6"
    by simp
  from setup_and_clean_trace(1) [of b h w] obtain es0
    where t0: "trace w1 = trace w @ es0" and a0: "filter (is_android_archive b) es0 = []"
    unfolding w1_def by blast
  from setup_and_clean_trace(2) [of b w1] obtain ec
    where tc: "trace w3 = trace w1 @ ec" and ac: "filter (is_android_archive b) ec = []"
    unfolding w3_def by blast
  from build_loop_trace
    [of b h target_names "\<lparr>results = [], android_targets = [], ios_targets = []\<rparr>" w3] loop
  obtain el where tl: "trace w4 = trace w3 @ el" and al: "filter (is_android_archive b) el = []"
    by (auto simp add: w3_def w1_def)
  from package_android_bundle_trace [of b "android_targets st" w4] obtain ea
    where ta: "trace w5 = trace w4 @ ea"
    by (cases "android_targets st \<noteq> []") (auto simp add: w5_def)
  have ea: "events_since w4 w5 = ea"
    using ta by (simp add: events_since_def)
  have aa: "filter (is_android_archive b) ea =
       (if android_targets st = [] then []
        else [MakeArchive (output_dir b @ [''rvpnse-android'']) ''gztar''
                (output_dir b @ [''rvpnse-android''])])"
  proof (cases "android_targets st = []")
    case True
    with ea show ?thesis by (simp add: w5_def events_since_self)
  next
    case False
    with ea packs(2) show ?thesis by (simp add: w5_def)
  qed
  from package_ios_bundle_no_android_archive [of b h "ios_targets st" w5] obtain ei
    where ti: "trace w6 = trace w5 @ ei" and ai: "filter (is_android_archive b) ei = []"
    by (cases "ios_targets st \<noteq> []") (auto simp add: w6_def)
  have "events_since w w6 = es0 @ ec @ el @ ea @ ei"
    using t0 tc tl ta ti by (simp add: events_since_def)
  then show "filter (is_android_archive b) (events_since w (snd (build b h target_names w))) =
       (if android_targets st = [] then []
        else [MakeArchive (output_dir b @ [''rvpnse-android'']) ''gztar''
                (output_dir b @ [''rvpnse-android''])])"
    using a0 ac al aa ai by (simp add: fin)
  have e46: "events_since w4 w6 = ea @ ei"
    using ta ti by (simp add: events_since_def)
  show "\<forall>t \<in> set (android_targets st). path_exists w4 (android_lib_path b t) \<longrightarrow>
       Copy2 (android_lib_path b t)
         (output_dir b @ [''rvpnse-android'', ''jniLibs'', the (android_arch t), ''librvpnse.so''])
       \<in> set (events_since w4 (snd (build b h target_names w)))"
  proof (intro ballI impI)
    fix t assume m: "t \<in> set (android_targets st)"
      and e: "path_exists w4 (android_lib_path b t)"
    from m have ne: "android_targets st \<noteq> []" by auto
    from packs(3) m e have "Copy2 (android_lib_path b t)
         (output_dir b @ [''rvpnse-android'', ''jniLibs'', the (android_arch t), ''librvpnse.so''])
       \<in> set (events_since w4 (snd (package_android_bundle b (android_targets st) w4)))"
      by blast
    with ne ea have "Copy2 (android_lib_path b t)
         (output_dir b @ [''rvpnse-android'', ''jniLibs'', the (android_arch t), ''librvpnse.so''])
       \<in> set ea"
      by (simp add: w5_def)
    then show "Copy2 (android_lib_path b t)
         (output_dir b @ [''rvpnse-android'', ''jniLibs'', the (android_arch t), ''librvpnse.so''])
       \<in> set (events_since w4 (snd (build b h target_names w)))"
      by (simp add: fin e46)
  qed
qed

text \<open>
  C7. In every run of \<open>build\<close> the log splits in two: what comes first, the loop over
  the targets included, writes no Android bundle; what follows runs no \<^verbatim>\<open>cargo build\<close>
  and writes the Android bundle at most once. The loop is a sequence of steps, one per
  requested name; the step of an Android or iOS target writes no archive at all, the
  step of an Android target adds the target to \<open>android_targets\<close> exactly when its
  build succeeded, and the step of a desktop target whose build succeeded writes that
  target's own archive within the step, before the next target is built.

  When the build tool is present, every name is in the registry and the loop ends in
  the state \<open>fin\<close>, \<open>build\<close> returns the results of \<open>fin\<close> and leaves the world of
  one call of \<open>package_android_bundle\<close> on the whole list \<open>android_targets fin\<close>,
  made after the loop (no call for an empty list), followed by the iOS packaging. The
  run writes the Android bundle exactly once when that list is not empty and never
  when it is empty, and the call copies the library of every accumulated target that
  exists after the loop into its \<^verbatim>\<open>jniLibs/<arch>\<close> directory. For a request without
  repeated names, the accumulated list is the requested Android targets whose result is
  True, in the order of the request.
\<close>

theorem one_android_bundle_after_loop:
  fixes b :: builder and h :: host and target_names :: "string list" and w :: world
  defines "looped \<equiv> build_loop b h target_names
      \<lparr>results = [], android_targets = [], ios_targets = []\<rparr>
      (clean_output_dir b (snd (setup_rust_environment b h w)))"
  shows
  "(\<exists>pre post. events_since w (snd (build b h target_names w)) = pre @ post \<and>
        filter (is_android_archive b) pre = [] \<and>
        filter is_cargo_build post = [] \<and>
        length (filter (is_android_archive b) post) \<le> 1) \<and>
   length (filter (is_android_archive b) (events_since w (snd (build b h target_names w)))) \<le> 1 \<and>
   build_loop b h (n # rest) st w' =
     (case build_loop b h [n] st w' of
        (Inl e, w'') \<Rightarrow> (Inl e, w'')
      | (Inr st'', w'') \<Rightarrow> build_loop b h rest st'' w'') \<and>
   (map_of TARGETS n = Some t \<and> (platform t = ANDROID \<or> platform t = IOS)
      \<longrightarrow> filter is_archive (events_since w' (snd (build_loop b h [n] st w'))) = []) \<and>
   (map_of TARGETS n = Some t \<and> platform t = ANDROID \<and> fst (build_loop b h [n] st w') = Inr st'
      \<longrightarrow> android_targets st' =
           android_targets st @ (if fst (build_target b h t w') = Inr True then [t] else [])) \<and>
   (map_of TARGETS n = Some t \<and> platform t \<noteq> ANDROID \<and> platform t \<noteq> IOS \<and>
    fst (build_target b h t w') = Inr True
      \<longrightarrow> filter is_archive (events_since w' (snd (build_loop b h [n] st w'))) =
           [MakeArchive (output_dir b @ [''rvpnse-'' @ n])
              (if platform t = WINDOWS then ''zip'' else ''gztar'')
              (output_dir b @ [''rvpnse-'' @ n])]) \<and>
   (which h ''cargo'' \<noteq> None \<and> (\<forall>m \<in> set target_names. map_of TARGETS m \<noteq> None) \<and>
    fst looped = Inr fin
      \<longrightarrow> build b h target_names w =
            (Inr (results fin),
             (let w5 = (if android_targets fin \<noteq> []
                        then snd (package_android_bundle b (android_targets fin) (snd looped))
                        else snd looped)
              in if ios_targets fin \<noteq> []
                 then snd (package_ios_bundle b h (ios_targets fin) w5) else w5)) \<and>
          filter (is_android_archive b) (events_since w (snd (build b h target_names w))) =
            (if android_targets fin = [] then []
             else [MakeArchive (output_dir b @ [''rvpnse-android'']) ''gztar''
                     (output_dir b @ [''rvpnse-android''])]) \<and>
          (\<forall>u \<in> set (android_targets fin). path_exists (snd looped) (android_lib_path b u) \<longrightarrow>
             Copy2 (android_lib_path b u)
               (output_dir b @
                  [''rvpnse-android'', ''jniLibs'', the (android_arch u), ''librvpnse.so''])
             \<in> set (events_since (snd looped) (snd (build b h target_names w)))) \<and>
          (distinct target_names \<longrightarrow>
             android_targets fin =
               map (\<lambda>m. the (map_of TARGETS m))
                 (filter (\<lambda>m. platform (the (map_of TARGETS m)) = ANDROID \<and>
                             map_of (results fin) m = Some True) target_names)))"
proof -
  from build_events_split [of w b h target_names] obtain pre post
    where e: "events_since w (snd (build b h target_names w)) = pre @ post"
      and p: "filter (is_android_archive b) pre = []" "filter is_cargo_build post = []"
        "length (filter (is_android_archive b) post) \<le> 1"
    by blast
  then have c: "length (filter (is_android_archive b)
      (events_since w (snd (build b h target_names w)))) \<le> 1"
    by simp
  have tie: "build b h target_names w =
            (Inr (results fin),
             (let w5 = (if android_targets fin \<noteq> []
                        then snd (package_android_bundle b (android_targets fin) (snd looped))
                        else snd looped)
              in if ios_targets fin \<noteq> []
                 then snd (package_ios_bundle b h (ios_targets fin) w5) else w5)) \<and>
          filter (is_android_archive b) (events_since w (snd (build b h target_names w))) =
            (if android_targets fin = [] then []
             else [MakeArchive (output_dir b @ [''rvpnse-android'']) ''gztar''
                     (output_dir b @ [''rvpnse-android''])]) \<and>
          (\<forall>u \<in> set (android_targets fin). path_exists (snd looped) (android_lib_path b u) \<longrightarrow>
             Copy2 (android_lib_path b u)
               (output_dir b @
                  [''rvpnse-android'', ''jniLibs'', the (android_arch u), ''librvpnse.so''])
             \<in> set (events_since (snd looped) (snd (build b h target_names w)))) \<and>
          (distinct target_names \<longrightarrow>
             android_targets fin =
               map (\<lambda>m. the (map_of TARGETS m))
                 (filter (\<lambda>m. platform (the (map_of TARGETS m)) = ANDROID \<and>
                             map_of (results fin) m = Some True) target_names))"
    if h1: "which h ''cargo'' \<noteq> None" and h2: "\<forall>m \<in> set target_names. map_of TARGETS m \<noteq> None"
      and h3: "fst looped = Inr fin"
  proof -
    from h3 have l: "build_loop b h target_names
        \<lparr>results = [], android_targets = [], ios_targets = []\<rparr>
        (clean_output_dir b (snd (setup_rust_environment b h w))) = (Inr fin, snd looped)"
      by (simp add: looped_def prod_eq_iff)
    from h3 have f: "fst (build_loop b h target_names
        \<lparr>results = [], android_targets = [], ios_targets = []\<rparr>
        (clean_output_dir b (snd (setup_rust_environment b h w)))) = Inr fin"
      by (simp add: looped_def)
    have "distinct target_names \<longrightarrow>
             android_targets fin =
               map (\<lambda>m. the (map_of TARGETS m))
                 (filter (\<lambda>m. platform (the (map_of TARGETS m)) = ANDROID \<and>
                             map_of (results fin) m = Some True) target_names)"
      using build_loop_accumulates [OF f] by simp
    with build_packages_accumulated [OF h1 h2 l] show ?thesis by blast
  qed
  from e p c tie build_loop_cons [of b h n rest st w'] build_loop_step_mobile [of n t w' b h st]
    build_loop_step_android [of n t b h st w' st'] build_loop_step_desktop [of n t b h w' st]
  show ?thesis by blast
qed

theorem one_android_bundle_after_loop_witness:
  "fst (build ndk_builder (stub_host writing_exec) [''android-arm64'', ''android-x64'']
          toolchain_world) =
     Inr [(''android-arm64'', True), (''android-x64'', True)] \<and>
   filter (is_android_archive ndk_builder)
     (events_since toolchain_world
       (snd (build ndk_builder (stub_host writing_exec) [''android-arm64'', ''android-x64'']
          toolchain_world))) =
     [MakeArchive [''proj'', ''dist'', ''rvpnse-android''] ''gztar''
        [''proj'', ''dist'', ''rvpnse-android'']] \<and>
   Copy2 [''proj'', ''target'', ''aarch64-linux-android'', ''release'', ''librvpnse.so'']
     [''proj'', ''dist'', ''rvpnse-android'', ''jniLibs'', ''arm64-v8a'', ''librvpnse.so'']
     \<in> set (events_since
         (snd (build_loop ndk_builder (stub_host writing_exec) [''android-arm64'', ''android-x64'']
            \<lparr>results = [], android_targets = [], ios_targets = []\<rparr>
            (clean_output_dir ndk_builder
              (snd (setup_rust_environment ndk_builder (stub_host writing_exec) toolchain_world)))))
         (snd (build ndk_builder (stub_host writing_exec) [''android-arm64'', ''android-x64'']
            toolchain_world))) \<and>
   Copy2 [''proj'', ''target'', ''x86_64-linux-android'', ''release'', ''librvpnse.so'']
     [''proj'', ''dist'', ''rvpnse-android'', ''jniLibs'', ''x86_64'', ''librvpnse.so'']
     \<in> set (events_since
         (snd (build_loop ndk_builder (stub_host writing_exec) [''android-arm64'', ''android-x64'']
            \<lparr>results = [], android_targets = [], ios_targets = []\<rparr>
            (clean_output_dir ndk_builder
              (snd (setup_rust_environment ndk_builder (stub_host writing_exec) toolchain_world)))))
         (snd (build ndk_builder (stub_host writing_exec) [''android-arm64'', ''android-x64'']
            toolchain_world))) \<and>
   map_of TARGETS ''linux-x64'' = Some linux_x64 \<and>
   fst (build_target ndk_builder (stub_host writing_exec) linux_x64 toolchain_world) = Inr True \<and>
   filter is_archive (events_since toolchain_world
     (snd (build_loop ndk_builder (stub_host writing_exec) [''linux-x64''] empty_state
        toolchain_world))) =
     [MakeArchive [''proj'', ''dist'', ''rvpnse-linux-x64''] ''gztar''
        [''proj'', ''dist'', ''rvpnse-linux-x64'']]"
proof -
  define looped where "looped =
      build_loop ndk_builder (stub_host writing_exec) [''android-arm64'', ''android-x64'']
        \<lparr>results = [], android_targets = [], ios_targets = []\<rparr>
        (clean_output_dir ndk_builder
          (snd (setup_rust_environment ndk_builder (stub_host writing_exec) toolchain_world)))"
  have run: "case build_loop ndk_builder (stub_host writing_exec)
        [''android-arm64'', ''android-x64'']
        \<lparr>results = [], android_targets = [], ios_targets = []\<rparr>
        (clean_output_dir ndk_builder
          (snd (setup_rust_environment ndk_builder (stub_host writing_exec) toolchain_world))) of
      (Inl e, w4) \<Rightarrow> False
    | (Inr fin, w4) \<Rightarrow>
        android_targets fin = [android_arm64, android_x64] \<and>
        results fin = [(''android-arm64'', True), (''android-x64'', True)] \<and>
        path_exists w4 (android_lib_path ndk_builder android_arm64) \<and>
        path_exists w4 (android_lib_path ndk_builder android_x64)"
    by code_simp
  then obtain fin where f: "fst looped = Inr fin"
    and at: "android_targets fin = [android_arm64, android_x64]"
    and rs: "results fin = [(''android-arm64'', True), (''android-x64'', True)]"
    and l1: "path_exists (snd looped) (android_lib_path ndk_builder android_arm64)"
    and l2: "path_exists (snd looped) (android_lib_path ndk_builder android_x64)"
    unfolding looped_def [symmetric]
    by (cases looped; cases "fst looped") auto
  have c: "which (stub_host writing_exec) ''cargo'' \<noteq> None"
    by (simp add: stub_host_def)
  have v: "\<forall>m \<in> set [''android-arm64'', ''android-x64'']. map_of TARGETS m \<noteq> None"
    by (simp add: TARGETS_def)
  note inst = one_android_bundle_after_loop [where b = ndk_builder
      and h = "stub_host writing_exec" and w = toolchain_world
      and target_names = "[''android-arm64'', ''android-x64'']" and fin = fin,
      folded looped_def]
  from inst c v f
  have tie: "build ndk_builder (stub_host writing_exec) [''android-arm64'', ''android-x64'']
        toolchain_world =
      (Inr (results fin),
       (let w5 = (if android_targets fin \<noteq> []
                  then snd (package_android_bundle ndk_builder (android_targets fin) (snd looped))
                  else snd looped)
        in if ios_targets fin \<noteq> []
           then snd (package_ios_bundle ndk_builder (stub_host writing_exec) (ios_targets fin) w5)
           else w5))"
    and ar: "filter (is_android_archive ndk_builder)
        (events_since toolchain_world
          (snd (build ndk_builder (stub_host writing_exec) [''android-arm64'', ''android-x64'']
             toolchain_world))) =
        (if android_targets fin = [] then []
         else [MakeArchive (output_dir ndk_builder @ [''rvpnse-android'']) ''gztar''
                 (output_dir ndk_builder @ [''rvpnse-android''])])"
    and cp: "\<forall>u \<in> set (android_targets fin).
        path_exists (snd looped) (android_lib_path ndk_builder u) \<longrightarrow>
        Copy2 (android_lib_path ndk_builder u)
          (output_dir ndk_builder @
             [''rvpnse-android'', ''jniLibs'', the (android_arch u), ''librvpnse.so''])
        \<in> set (events_since (snd looped)
            (snd (build ndk_builder (stub_host writing_exec) [''android-arm64'', ''android-x64'']
               toolchain_world)))"
    by blast+
  from tie rs have r: "fst (build ndk_builder (stub_host writing_exec)
      [''android-arm64'', ''android-x64''] toolchain_world) =
      Inr [(''android-arm64'', True), (''android-x64'', True)]"
    by simp
  from ar at have a: "filter (is_android_archive ndk_builder)
      (events_since toolchain_world
        (snd (build ndk_builder (stub_host writing_exec) [''android-arm64'', ''android-x64'']
           toolchain_world))) =
      [MakeArchive [''proj'', ''dist'', ''rvpnse-android''] ''gztar''
         [''proj'', ''dist'', ''rvpnse-android'']]"
    by (simp add: ndk_builder_def)
  from cp at l1 have c1:
    "Copy2 (android_lib_path ndk_builder android_arm64)
       (output_dir ndk_builder @
          [''rvpnse-android'', ''jniLibs'', the (android_arch android_arm64), ''librvpnse.so''])
     \<in> set (events_since (snd looped)
         (snd (build ndk_builder (stub_host writing_exec) [''android-arm64'', ''android-x64'']
            toolchain_world)))"
    by simp
  from cp at l2 have c2:
    "Copy2 (android_lib_path ndk_builder android_x64)
       (output_dir ndk_builder @
          [''rvpnse-android'', ''jniLibs'', the (android_arch android_x64), ''librvpnse.so''])
     \<in> set (events_since (snd looped)
         (snd (build ndk_builder (stub_host writing_exec) [''android-arm64'', ''android-x64'']
            toolchain_world)))"
    by simp
  have m: "map_of TARGETS ''linux-x64'' = Some linux_x64"
    by (simp add: TARGETS_def linux_x64_def)
  have p: "platform linux_x64 \<noteq> ANDROID" "platform linux_x64 \<noteq> IOS"
    "platform linux_x64 \<noteq> WINDOWS"
    by (simp_all add: linux_x64_def mk_target_def)
  have s: "fst (build_target ndk_builder (stub_host writing_exec) linux_x64 toolchain_world) =
      Inr True"
    by code_simp
  from one_android_bundle_after_loop [where n = "''linux-x64''" and t = linux_x64
      and b = ndk_builder and h = "stub_host writing_exec" and w' = toolchain_world
      and st = empty_state] m p s
  have d: "filter is_archive (events_since toolchain_world
     (snd (build_loop ndk_builder (stub_host writing_exec) [''linux-x64''] empty_state
        toolchain_world))) =
     [MakeArchive (output_dir ndk_builder @ [''rvpnse-'' @ ''linux-x64''])
        (if platform linux_x64 = WINDOWS then ''zip'' else ''gztar'')
        (output_dir ndk_builder @ [''rvpnse-'' @ ''linux-x64''])]"
    by blast
  have paths: "android_lib_path ndk_builder android_arm64 =
      [''proj'', ''target'', ''aarch64-linux-android'', ''release'', ''librvpnse.so'']"
    "android_lib_path ndk_builder android_x64 =
      [''proj'', ''target'', ''x86_64-linux-android'', ''release'', ''librvpnse.so'']"
    "the (android_arch android_arm64) = ''arm64-v8a''" "the (android_arch android_x64) = ''x86_64''"
    "output_dir ndk_builder = [''proj'', ''dist'']"
    by (simp_all add: android_lib_path_def ndk_builder_def android_arm64_def android_x64_def
        mk_target_def)
  from r a c1 c2 m s d p show ?thesis
    by (simp add: paths looped_def)
qed

end
